theory Spec2Isabelle
  imports Complex_Main "HOL-Library.AList"
begin

section \<open>Python values\<close>

text \<open>
  The service receives the decoded JSON body of a request: a \<^verbatim>\<open>dict\<close> from field
  names to Python values. A Python \<^verbatim>\<open>str\<close> is modelled as a \<^typ>\<open>string\<close> whose
  characters are the code points U+0000 to U+00FF. A Python \<^verbatim>\<open>float\<close> is its exact
  rational value, or one of the three special values; the two zeros are identified
  (the program never tells them apart: it only compares with \<^verbatim>\<open>0\<close> and tests
  truth).
\<close>

datatype pyfloat = Fin rat | PosInf | NegInf | NaN

datatype pyval =
    VNone
  | VBool bool
  | VInt int
  | VFloat pyfloat
  | VStr string
  | VList "pyval list"
  | VDict "(string \<times> pyval) list"

type_synonym pydict = "string \<rightharpoonup> pyval"

text \<open>Exceptions that the modelled code can raise. The last two are failures of the
  store (\<^verbatim>\<open>sqlite3.IntegrityError\<close>, \<^verbatim>\<open>sqlite3.OperationalError\<close>).\<close>

datatype error =
    ValidationError "(string \<times> string) list"
  | NotFoundError string
  | UniqueConstraintError "(string \<times> string) list"
  | AttributeError
  | KeyError string
  | TypeError
  | ValueError
  | OverflowError
  | IntegrityError string
  | OperationalError string

text \<open>\<^verbatim>\<open>bool(v)\<close>: the truth value that \<^verbatim>\<open>not v\<close> and \<^verbatim>\<open>if v\<close> test.\<close>

fun truthy :: "pyval \<Rightarrow> bool" where
  "truthy VNone = False"
| "truthy (VBool b) = b"
| "truthy (VInt i) = (i \<noteq> 0)"
| "truthy (VFloat f) = (f \<noteq> Fin 0)"
| "truthy (VStr s) = (s \<noteq> [])"
| "truthy (VList xs) = (xs \<noteq> [])"
| "truthy (VDict kvs) = (kvs \<noteq> [])"

text \<open>\<^verbatim>\<open>isinstance(v, str)\<close>.\<close>

fun is_str :: "pyval \<Rightarrow> bool" where
  "is_str (VStr s) = True"
| "is_str v = False"

text \<open>\<^verbatim>\<open>d.get(k)\<close> and \<^verbatim>\<open>d.get(k, default)\<close>.\<close>

definition dict_get :: "pydict \<Rightarrow> string \<Rightarrow> pyval" where
  "dict_get d k = (case d k of None \<Rightarrow> VNone | Some v \<Rightarrow> v)"

definition dict_get_default :: "pydict \<Rightarrow> string \<Rightarrow> pyval \<Rightarrow> pyval" where
  "dict_get_default d k dflt = (case d k of None \<Rightarrow> dflt | Some v \<Rightarrow> v)"

subsection \<open>Strings\<close>

text \<open>\<^verbatim>\<open>str.isspace\<close> on one character, for the code points below 256:
  TAB, LF, VT, FF, CR, FS, GS, RS, US, space, NEL and NBSP.\<close>

definition isspace :: "char \<Rightarrow> bool" where
  "isspace c = (of_char c \<in> {9, 10, 11, 12, 13, 28, 29, 30, 31, 32, 133, 160 :: nat})"

text \<open>\<^verbatim>\<open>s.strip()\<close>: leading and trailing whitespace removed.\<close>

definition strip :: "string \<Rightarrow> string" where
  "strip s = rev (dropWhile isspace (rev (dropWhile isspace s)))"

definition is_digit :: "char \<Rightarrow> bool" where
  "is_digit c = (48 \<le> (of_char c :: nat) \<and> (of_char c :: nat) \<le> 57)"

definition is_upper :: "char \<Rightarrow> bool" where
  "is_upper c = (65 \<le> (of_char c :: nat) \<and> (of_char c :: nat) \<le> 90)"

definition is_lower :: "char \<Rightarrow> bool" where
  "is_lower c = (97 \<le> (of_char c :: nat) \<and> (of_char c :: nat) \<le> 122)"

text \<open>\<^verbatim>\<open>str(n)\<close> for an integer, as the f-strings of the service format an id.\<close>

fun str_of_nat :: "nat \<Rightarrow> string" where
  "str_of_nat n =
     (if n < 10 then [''0123456789'' ! n]
      else str_of_nat (n div 10) @ [''0123456789'' ! (n mod 10)])"

definition str_of_int :: "int \<Rightarrow> string" where
  "str_of_int i = (if i < 0 then CHR ''-'' # str_of_nat (nat (- i)) else str_of_nat (nat i))"

subsection \<open>The built-in \<^verbatim>\<open>float\<close>\<close>

text \<open>
  \<^verbatim>\<open>float(x)\<close> rounds to the nearest IEEE 754 double, ties to even. \<open>round_half_even n d\<close>
  is the integer nearest to \<open>n / d\<close>; \<open>float_round q\<close> is the double nearest to the
  rational \<open>q\<close>: 53 significant bits, least exponent \<open>-1074\<close>, and infinity from
  \<open>2 ^ 1024\<close> on.
\<close>

definition round_half_even :: "int \<Rightarrow> int \<Rightarrow> int" where
  "round_half_even n d =
     (let q = n div d; r = n mod d
      in if 2 * r < d then q
         else if d < 2 * r then q + 1
         else if even q then q else q + 1)"

function bit_length :: "int \<Rightarrow> int" where
  "bit_length n = (if n \<le> 0 then 0 else 1 + bit_length (n div 2))"
  by pat_completeness auto
termination
  by (relation "measure nat") auto

definition floor_log2 :: "int \<Rightarrow> int \<Rightarrow> int" where
  "floor_log2 n d =
     (let k = bit_length n - bit_length d
      in if d * 2 ^ nat k \<le> n * 2 ^ nat (- k) then k else k - 1)"

definition float_round :: "rat \<Rightarrow> pyfloat" where
  "float_round q =
     (if q = 0 then Fin 0
      else
        let (n, d) = quotient_of \<bar>q\<bar>;
            p = max (floor_log2 n d - 52) (- 1074);
            m = round_half_even (n * 2 ^ nat (- p)) (d * 2 ^ nat p);
            v = of_int m * (if p < 0 then 1 / 2 ^ nat (- p) else 2 ^ nat p)
        in if (2 :: rat) ^ 1024 \<le> v then (if q < 0 then NegInf else PosInf)
           else Fin (if q < 0 then - v else v))"

text \<open>\<^verbatim>\<open>float(s)\<close> for a string. Whitespace is stripped first (for this built-in the
  separators FS to US do not count), then an optional sign, then \<^verbatim>\<open>inf\<close>,
  \<^verbatim>\<open>infinity\<close> or \<^verbatim>\<open>nan\<close> in any case, or a decimal number: digits with single
  underscores between them, an optional fraction, an optional exponent.\<close>

definition float_space :: "char \<Rightarrow> bool" where
  "float_space c = (of_char c \<in> {9, 10, 11, 12, 13, 32, 133, 160 :: nat})"

definition strip_float :: "string \<Rightarrow> string" where
  "strip_float s = rev (dropWhile float_space (rev (dropWhile float_space s)))"

definition lower :: "char \<Rightarrow> char" where
  "lower c = (if is_upper c then char_of (of_char c + (32 :: nat)) else c)"

fun digitpart :: "string \<Rightarrow> bool" where
  "digitpart [] = False"
| "digitpart [c] = is_digit c"
| "digitpart (c # d # cs) =
     (is_digit c \<and> (if d = CHR ''_'' then digitpart cs else digitpart (d # cs)))"

definition digits :: "string \<Rightarrow> string" where
  "digits s = filter is_digit s"

definition digits_value :: "string \<Rightarrow> int" where
  "digits_value s = foldl (\<lambda>acc c. 10 * acc + (of_char c - 48)) 0 (digits s)"

definition parse_exponent :: "string \<Rightarrow> int option" where
  "parse_exponent ex =
     (case ex of
        [] \<Rightarrow> Some 0
      | _ # r \<Rightarrow>
          let (neg, d) = (case r of
                 c # r' \<Rightarrow> if c = CHR ''-'' then (True, r')
                            else if c = CHR ''+'' then (False, r') else (False, r)
               | [] \<Rightarrow> (False, r))
          in if digitpart d
             then Some (if neg then - digits_value d else digits_value d)
             else None)"

definition parse_mantissa :: "string \<Rightarrow> (int \<times> nat) option" where
  "parse_mantissa m =
     (let ip = takeWhile (\<lambda>c. c \<noteq> CHR ''.'') m;
          rest = dropWhile (\<lambda>c. c \<noteq> CHR ''.'') m
      in case rest of
           [] \<Rightarrow> if digitpart ip then Some (digits_value ip, 0) else None
         | _ # fp \<Rightarrow>
             if (ip = [] \<or> digitpart ip) \<and> (fp = [] \<or> digitpart fp) \<and> (ip \<noteq> [] \<or> fp \<noteq> [])
             then Some (digits_value (ip @ fp), length (digits fp))
             else None)"

definition parse_number :: "string \<Rightarrow> rat option" where
  "parse_number u =
     (let is_e = (\<lambda>c. c = CHR ''e'' \<or> c = CHR ''E'');
          m = takeWhile (\<lambda>c. \<not> is_e c) u;
          ex = dropWhile (\<lambda>c. \<not> is_e c) u
      in case parse_mantissa m of
           None \<Rightarrow> None
         | Some (v, k) \<Rightarrow>
             (case parse_exponent ex of
                None \<Rightarrow> None
              | Some e \<Rightarrow>
                  Some (of_int v / 10 ^ k * (if e < 0 then 1 / 10 ^ nat (- e) else 10 ^ nat e))))"

definition float_of_str :: "string \<Rightarrow> pyfloat option" where
  "float_of_str s =
     (let t = strip_float s;
          (neg, u) = (case t of
                 c # r \<Rightarrow> if c = CHR ''-'' then (True, r)
                           else if c = CHR ''+'' then (False, r) else (False, t)
               | [] \<Rightarrow> (False, t));
          w = map lower u
      in if w = ''inf'' \<or> w = ''infinity'' then Some (if neg then NegInf else PosInf)
         else if w = ''nan'' then Some NaN
         else case parse_number u of
                None \<Rightarrow> None
              | Some q \<Rightarrow> Some (float_round (if neg then - q else q)))"

text \<open>\<^verbatim>\<open>float(v)\<close>: a string that is no number raises \<^verbatim>\<open>ValueError\<close>, a value of
  another type \<^verbatim>\<open>TypeError\<close>, an integer beyond the range of a double
  \<^verbatim>\<open>OverflowError\<close>.\<close>

fun py_float :: "pyval \<Rightarrow> error + pyfloat" where
  "py_float (VFloat f) = Inr f"
| "py_float (VBool b) = Inr (Fin (if b then 1 else 0))"
| "py_float (VInt i) =
     (case float_round (of_int i) of
        Fin q \<Rightarrow> Inr (Fin q)
      | _ \<Rightarrow> Inl OverflowError)"
| "py_float (VStr s) = (case float_of_str s of None \<Rightarrow> Inl ValueError | Some f \<Rightarrow> Inr f)"
| "py_float v = Inl TypeError"

text \<open>\<^verbatim>\<open>f <= 0\<close> on a float; every comparison with \<^verbatim>\<open>nan\<close> is false.\<close>

fun float_le_zero :: "pyfloat \<Rightarrow> bool" where
  "float_le_zero (Fin q) = (q \<le> 0)"
| "float_le_zero NegInf = True"
| "float_le_zero PosInf = False"
| "float_le_zero NaN = False"

subsection \<open>Regular expressions\<close>

text \<open>The part of \<^verbatim>\<open>re\<close> that \<^verbatim>\<open>validate_email\<close> uses: character sets,
  sequence, alternative and repetition, matched by derivatives.\<close>

datatype regex =
    RNone
  | REps
  | RSet "char \<Rightarrow> bool"
  | RSeq regex regex
  | RAlt regex regex
  | RStar regex

fun nullable :: "regex \<Rightarrow> bool" where
  "nullable RNone = False"
| "nullable REps = True"
| "nullable (RSet cs) = False"
| "nullable (RSeq r s) = (nullable r \<and> nullable s)"
| "nullable (RAlt r s) = (nullable r \<or> nullable s)"
| "nullable (RStar r) = True"

fun deriv :: "char \<Rightarrow> regex \<Rightarrow> regex" where
  "deriv c RNone = RNone"
| "deriv c REps = RNone"
| "deriv c (RSet cs) = (if cs c then REps else RNone)"
| "deriv c (RSeq r s) =
     (if nullable r then RAlt (RSeq (deriv c r) s) (deriv c s) else RSeq (deriv c r) s)"
| "deriv c (RAlt r s) = RAlt (deriv c r) (deriv c s)"
| "deriv c (RStar r) = RSeq (deriv c r) (RStar r)"

text \<open>The whole of \<open>s\<close> is a word of \<open>r\<close>.\<close>

fun fullmatch :: "regex \<Rightarrow> string \<Rightarrow> bool" where
  "fullmatch r [] = nullable r"
| "fullmatch r (c # cs) = fullmatch (deriv c r) cs"

text \<open>\<^verbatim>\<open>r+\<close> and \<^verbatim>\<open>r{2,}\<close>.\<close>

definition RPlus :: "regex \<Rightarrow> regex" where
  "RPlus r = RSeq r (RStar r)"

definition RAtLeast2 :: "regex \<Rightarrow> regex" where
  "RAtLeast2 r = RSeq r (RSeq r (RStar r))"

definition RChar :: "char \<Rightarrow> regex" where
  "RChar c = RSet (\<lambda>x. x = c)"

text \<open>\<^verbatim>\<open>re.match('^' + r + '$', s)\<close>: \<^verbatim>\<open>re.match\<close> starts at the first character, and
  \<^verbatim>\<open>$\<close> stands at the end of the string or just before a newline that ends it.\<close>

definition re_match_to_end :: "regex \<Rightarrow> string \<Rightarrow> bool" where
  "re_match_to_end r s =
     (fullmatch r s \<or> (s \<noteq> [] \<and> last s = CHR 0x0A \<and> fullmatch r (butlast s)))"

section \<open>Validation (validators.py)\<close>

definition is_alpha :: "char \<Rightarrow> bool" where
  "is_alpha c = (is_lower c \<or> is_upper c)"

text \<open>\<^verbatim>\<open>[a-zA-Z0-9._%+-]\<close> and \<^verbatim>\<open>[a-zA-Z0-9.-]\<close>.\<close>

definition local_char :: "char \<Rightarrow> bool" where
  "local_char c = (is_alpha c \<or> is_digit c \<or> c \<in> set ''._%+-'')"

definition domain_char :: "char \<Rightarrow> bool" where
  "domain_char c = (is_alpha c \<or> is_digit c \<or> c \<in> set ''.-'')"

text \<open>\<^verbatim>\<open>[a-zA-Z0-9._%+-]+@[a-zA-Z0-9.-]+\.[a-zA-Z]{2,}\<close>, between \<^verbatim>\<open>^\<close> and \<^verbatim>\<open>$\<close>.\<close>

definition email_pattern :: regex where
  "email_pattern =
     RSeq (RPlus (RSet local_char))
       (RSeq (RChar CHR ''@'')
          (RSeq (RPlus (RSet domain_char))
             (RSeq (RChar CHR ''.'') (RAtLeast2 (RSet is_alpha)))))"

definition validate_email :: "pyval \<Rightarrow> bool \<times> string" where
  "validate_email email =
     (if \<not> truthy email \<or> \<not> is_str email then (False, ''Email is required'')
      else case email of
             VStr s \<Rightarrow>
               if \<not> re_match_to_end email_pattern s then (False, ''Email format is invalid'')
               else (True, [])
           | _ \<Rightarrow> (False, ''Email is required''))"

text \<open>The \<^verbatim>\<open>try\<close> catches \<^verbatim>\<open>TypeError\<close> and \<^verbatim>\<open>ValueError\<close> only: the
  \<^verbatim>\<open>OverflowError\<close> of \<^verbatim>\<open>float\<close> leaves the function.\<close>

definition validate_salary :: "pyval \<Rightarrow> error + bool \<times> string" where
  "validate_salary salary =
     (case py_float salary of
        Inr salary_float \<Rightarrow>
          if float_le_zero salary_float then Inr (False, ''Salary must be greater than 0'')
          else Inr (True, [])
      | Inl TypeError \<Rightarrow> Inr (False, ''Salary must be a valid number'')
      | Inl ValueError \<Rightarrow> Inr (False, ''Salary must be a valid number'')
      | Inl e \<Rightarrow> Inl e)"

definition validate_required_field :: "pyval \<Rightarrow> string \<Rightarrow> bool \<times> string" where
  "validate_required_field v field_name =
     (if \<not> truthy v \<or> (case v of VStr s \<Rightarrow> \<not> truthy (VStr (strip s)) | _ \<Rightarrow> False)
      then (False, field_name @ '' is required'')
      else (True, []))"

definition required_fields :: "(string \<times> string) list" where
  "required_fields =
     [(''first_name'', ''First Name''),
      (''last_name'', ''Last Name''),
      (''email'', ''Email''),
      (''position'', ''Position''),
      (''salary'', ''Salary'')]"

text \<open>The three stages of \<^verbatim>\<open>validate_employee_data\<close>. \<^verbatim>\<open>errors[field] = error\<close>
  is \<^const>\<open>AList.update\<close>: a key that is there keeps its place and gets the new
  message, a new key goes to the end.\<close>

definition required_errors :: "pydict \<Rightarrow> (string \<times> string) list" where
  "required_errors data =
     foldl (\<lambda>errors (field, label).
              let (is_valid, err) = validate_required_field (dict_get data field) label
              in if \<not> is_valid then AList.update field err errors else errors)
       [] required_fields"

definition email_errors :: "pydict \<Rightarrow> (string \<times> string) list \<Rightarrow> (string \<times> string) list" where
  "email_errors data errors =
     (case data ''email'' of
        None \<Rightarrow> errors
      | Some v \<Rightarrow>
          if truthy v
          then let (is_valid, err) = validate_email v
               in if \<not> is_valid then AList.update ''email'' err errors else errors
          else errors)"

definition salary_errors ::
  "pydict \<Rightarrow> (string \<times> string) list \<Rightarrow> error + (string \<times> string) list" where
  "salary_errors data errors =
     (case data ''salary'' of
        None \<Rightarrow> Inr errors
      | Some v \<Rightarrow>
          if v \<noteq> VNone
          then case validate_salary v of
                 Inl e \<Rightarrow> Inl e
               | Inr (is_valid, err) \<Rightarrow>
                   Inr (if \<not> is_valid then AList.update ''salary'' err errors else errors)
          else Inr errors)"

definition validate_employee_data :: "pydict \<Rightarrow> error + bool \<times> (string \<times> string) list" where
  "validate_employee_data data =
     (case salary_errors data (email_errors data (required_errors data)) of
        Inl e \<Rightarrow> Inl e
      | Inr errors \<Rightarrow> Inr (length errors = 0, errors))"


section \<open>The entity (models.py)\<close>

record employee =
  first_name :: string
  last_name :: string
  email :: string
  position :: string
  salary :: pyfloat
  id' :: "int option"
  created_at :: "string option"

section \<open>The store (database.py)\<close>

text \<open>
  One table, as \<^verbatim>\<open>_init_schema\<close> creates it: \<^verbatim>\<open>id INTEGER PRIMARY KEY AUTOINCREMENT\<close>,
  four \<^verbatim>\<open>TEXT NOT NULL\<close> columns of which \<^verbatim>\<open>email\<close> is \<^verbatim>\<open>UNIQUE\<close>,
  \<^verbatim>\<open>salary REAL NOT NULL\<close>, and \<^verbatim>\<open>created_at TIMESTAMP DEFAULT CURRENT_TIMESTAMP\<close>,
  which may be null. \<open>sqlite_sequence\<close> is the largest id that \<^verbatim>\<open>AUTOINCREMENT\<close>
  has handed out. Every gateway call opens its own connection and commits, so the
  state between two calls is the table and that counter. Failures of the
  connection itself (I/O) are not modelled; the failures of a statement are.
\<close>

text \<open>
  sqlite3 binds a Python \<^verbatim>\<open>int\<close> as a signed 64-bit \<^verbatim>\<open>INTEGER\<close>. For an
  \<^verbatim>\<open>int\<close> outside that range the binding raises \<^verbatim>\<open>OverflowError\<close>, and the
  statement does not run. The parameters of a statement are bound from left to
  right.
\<close>

definition bind_int :: "int \<Rightarrow> error + int" where
  "bind_int i = (if - (2 ^ 63) \<le> i \<and> i < 2 ^ 63 then Inr i else Inl OverflowError)"

record employees_row =
  col_id :: int
  col_first_name :: string
  col_last_name :: string
  col_email :: string
  col_position :: string
  col_salary :: pyfloat
  col_created_at :: "string option"

record database =
  employees :: "employees_row list"
  sqlite_sequence :: int

text \<open>\<^verbatim>\<open>Employee.from_dict(row)\<close>.\<close>

definition from_dict :: "employees_row \<Rightarrow> employee" where
  "from_dict row =
     \<lparr>first_name = col_first_name row,
      last_name = col_last_name row,
      email = col_email row,
      position = col_position row,
      salary = col_salary row,
      id' = Some (col_id row),
      created_at = col_created_at row\<rparr>"

text \<open>\<^verbatim>\<open>execute_single("SELECT * FROM employees WHERE id = ?", (employee_id,))\<close>.\<close>

definition select_by_id :: "database \<Rightarrow> int \<Rightarrow> error + employees_row option" where
  "select_by_id db employee_id =
     (case bind_int employee_id of
        Inl e \<Rightarrow> Inl e
      | Inr i \<Rightarrow> Inr (find (\<lambda>r. col_id r = i) (employees db)))"

text \<open>
  \<^verbatim>\<open>execute_single("SELECT id FROM employees WHERE email = ?", (data["email"],))\<close> and
  \<^verbatim>\<open>execute_single("SELECT id FROM employees WHERE email = ? AND id != ?", ...)\<close>.
  The service binds \<^verbatim>\<open>data["email"]\<close> after validation only, when it is a
  \<^verbatim>\<open>str\<close> (lemma \<open>valid_email_str\<close> below); the branch for a parameter of another
  type is never taken, and stands for whatever sqlite3 does with it.
\<close>

definition select_id_by_email :: "database \<Rightarrow> pyval \<Rightarrow> error + int option" where
  "select_id_by_email db p =
     (case p of
        VStr e \<Rightarrow> Inr (map_option col_id (find (\<lambda>r. col_email r = e) (employees db)))
      | _ \<Rightarrow> Inl (OperationalError ''Error binding parameter''))"

definition select_id_by_email_except :: "database \<Rightarrow> pyval \<Rightarrow> int \<Rightarrow> error + int option" where
  "select_id_by_email_except db p employee_id =
     (case p of
        VStr e \<Rightarrow>
          (case bind_int employee_id of
             Inl err \<Rightarrow> Inl err
           | Inr i \<Rightarrow>
               Inr (map_option col_id
                      (find (\<lambda>r. col_email r = e \<and> col_id r \<noteq> i) (employees db))))
      | _ \<Rightarrow> Inl (OperationalError ''Error binding parameter''))"

text \<open>
  \<^verbatim>\<open>execute_insert("INSERT INTO employees (first_name, last_name, email, position,
  salary) VALUES (?, ?, ?, ?, ?)", ...)\<close>, at the time \<open>now\<close>. SQLite stores a NaN as
  NULL, which \<^verbatim>\<open>NOT NULL\<close> refuses; \<^verbatim>\<open>UNIQUE\<close> refuses an email that a row has;
  the new id is one more than the largest id ever used, and there is none after
  \<open>2 ^ 63 - 1\<close>. A refused statement changes nothing. Returns \<^verbatim>\<open>cursor.lastrowid\<close>.
\<close>

definition largest_rowid :: "database \<Rightarrow> int" where
  "largest_rowid db = foldl max (sqlite_sequence db) (map col_id (employees db))"

definition execute_insert ::
  "string \<Rightarrow> string \<times> string \<times> string \<times> string \<times> pyfloat \<Rightarrow> database
     \<Rightarrow> (error + int) \<times> database" where
  "execute_insert now params db =
     (case params of (fname, lname, em, pos, sal) \<Rightarrow>
        if sal = NaN
        then (Inl (IntegrityError ''NOT NULL constraint failed: employees.salary''), db)
        else if find (\<lambda>r. col_email r = em) (employees db) \<noteq> None
        then (Inl (IntegrityError ''UNIQUE constraint failed: employees.email''), db)
        else if 2 ^ 63 - 1 \<le> largest_rowid db
        then (Inl (OperationalError ''database or disk is full''), db)
        else
          let new_id = largest_rowid db + 1;
              row = \<lparr>col_id = new_id, col_first_name = fname, col_last_name = lname,
                     col_email = em, col_position = pos, col_salary = sal,
                     col_created_at = Some now\<rparr>
          in (Inr new_id,
              db\<lparr>employees := employees db @ [row], sqlite_sequence := new_id\<rparr>))"

text \<open>The \<^verbatim>\<open>SET\<close> list of an \<^verbatim>\<open>UPDATE\<close>: for each column, the new value if the
  statement names the column.\<close>

record changes =
  set_first_name :: "string option"
  set_last_name :: "string option"
  set_email :: "string option"
  set_position :: "string option"
  set_salary :: "pyfloat option"

definition no_changes :: changes where
  "no_changes =
     \<lparr>set_first_name = None, set_last_name = None, set_email = None,
      set_position = None, set_salary = None\<rparr>"

definition apply_changes :: "changes \<Rightarrow> employees_row \<Rightarrow> employees_row" where
  "apply_changes ch r =
     r\<lparr>col_first_name := (case set_first_name ch of None \<Rightarrow> col_first_name r | Some x \<Rightarrow> x),
       col_last_name := (case set_last_name ch of None \<Rightarrow> col_last_name r | Some x \<Rightarrow> x),
       col_email := (case set_email ch of None \<Rightarrow> col_email r | Some x \<Rightarrow> x),
       col_position := (case set_position ch of None \<Rightarrow> col_position r | Some x \<Rightarrow> x),
       col_salary := (case set_salary ch of None \<Rightarrow> col_salary r | Some x \<Rightarrow> x)\<rparr>"

text \<open>\<^verbatim>\<open>execute_update("UPDATE employees SET ... WHERE id = ?", ...)\<close>; returns
  \<^verbatim>\<open>cursor.rowcount\<close>.\<close>

definition execute_update :: "changes \<Rightarrow> int \<Rightarrow> database \<Rightarrow> (error + nat) \<times> database" where
  "execute_update ch employee_id db =
     (case bind_int employee_id of
        Inl e \<Rightarrow> (Inl e, db)
      | Inr i \<Rightarrow>
          if find (\<lambda>r. col_id r = i) (employees db) = None then (Inr 0, db)
          else if set_salary ch = Some NaN
          then (Inl (IntegrityError ''NOT NULL constraint failed: employees.salary''), db)
          else if (case set_email ch of
                     None \<Rightarrow> False
                   | Some e \<Rightarrow>
                       find (\<lambda>r. col_email r = e \<and> col_id r \<noteq> i) (employees db) \<noteq> None)
          then (Inl (IntegrityError ''UNIQUE constraint failed: employees.email''), db)
          else (Inr (length (filter (\<lambda>r. col_id r = i) (employees db))),
                db\<lparr>employees :=
                     map (\<lambda>r. if col_id r = i then apply_changes ch r else r) (employees db)\<rparr>))"

text \<open>\<^verbatim>\<open>execute_delete("DELETE FROM employees WHERE id = ?", (employee_id,))\<close>.\<close>

definition execute_delete :: "int \<Rightarrow> database \<Rightarrow> (error + nat) \<times> database" where
  "execute_delete employee_id db =
     (case bind_int employee_id of
        Inl e \<Rightarrow> (Inl e, db)
      | Inr i \<Rightarrow>
          (Inr (length (filter (\<lambda>r. col_id r = i) (employees db))),
           db\<lparr>employees := filter (\<lambda>r. col_id r \<noteq> i) (employees db)\<rparr>))"

text \<open>\<^verbatim>\<open>execute_query("SELECT * FROM employees ORDER BY id LIMIT ? OFFSET ?", (limit,
  offset))\<close>. In SQLite a negative \<^verbatim>\<open>LIMIT\<close> is no limit and a negative
  \<^verbatim>\<open>OFFSET\<close> is none.\<close>

definition select_page :: "database \<Rightarrow> int \<Rightarrow> int \<Rightarrow> error + employees_row list" where
  "select_page db limit offset =
     (case bind_int limit of
        Inl e \<Rightarrow> Inl e
      | Inr l \<Rightarrow>
          (case bind_int offset of
             Inl e \<Rightarrow> Inl e
           | Inr k \<Rightarrow>
               let sorted_rows = sort_key col_id (employees db);
                   rest = drop (nat k) sorted_rows
               in Inr (if l < 0 then rest else take (nat l) rest)))"

section \<open>The service (employees_manager.py)\<close>

text \<open>An exception ends the sequence: \<open>and_then\<close> runs the next step on a value
  only.\<close>

definition and_then :: "error + 'a \<Rightarrow> ('a \<Rightarrow> error + 'b) \<Rightarrow> error + 'b" where
  "and_then x f = (case x of Inl e \<Rightarrow> Inl e | Inr v \<Rightarrow> f v)"

text \<open>\<^verbatim>\<open>data[k]\<close>, and \<^verbatim>\<open>v.strip()\<close>: only a \<^verbatim>\<open>str\<close> has the method.\<close>

definition dict_index :: "pydict \<Rightarrow> string \<Rightarrow> error + pyval" where
  "dict_index d k = (case d k of None \<Rightarrow> Inl (KeyError k) | Some v \<Rightarrow> Inr v)"

fun py_strip :: "pyval \<Rightarrow> error + string" where
  "py_strip (VStr s) = Inr (strip s)"
| "py_strip v = Inl AttributeError"

text \<open>\<^verbatim>\<open>f"Email '{data['email']}' already exists"\<close>, for a \<^verbatim>\<open>str\<close>.\<close>

definition already_exists :: "pyval \<Rightarrow> (string \<times> string) list" where
  "already_exists v =
     [(''email'',
       ''Email '' @ [CHR 0x27] @ (case v of VStr s \<Rightarrow> s | _ \<Rightarrow> []) @ [CHR 0x27]
         @ '' already exists'')]"

definition get_employee_by_id :: "int \<Rightarrow> database \<Rightarrow> error + employee" where
  "get_employee_by_id employee_id db =
     (case select_by_id db employee_id of
        Inl e \<Rightarrow> Inl e
      | Inr None \<Rightarrow>
          Inl (NotFoundError (''Employee with id '' @ str_of_int employee_id @ '' not found''))
      | Inr (Some row) \<Rightarrow> Inr (from_dict row))"

text \<open>The parameters of the \<^verbatim>\<open>INSERT\<close>, evaluated from left to right.\<close>

definition insert_params ::
  "pydict \<Rightarrow> error + string \<times> string \<times> string \<times> string \<times> pyfloat" where
  "insert_params data =
     and_then (and_then (dict_index data ''first_name'') py_strip) (\<lambda>fname.
     and_then (and_then (dict_index data ''last_name'') py_strip) (\<lambda>lname.
     and_then (and_then (dict_index data ''email'') py_strip) (\<lambda>em.
     and_then (and_then (dict_index data ''position'') py_strip) (\<lambda>pos.
     and_then (and_then (dict_index data ''salary'') py_float) (\<lambda>sal.
     Inr (fname, lname, em, pos, sal))))))"

text \<open>\<open>now\<close> is the clock of the store, which \<^verbatim>\<open>CURRENT_TIMESTAMP\<close> reads.\<close>

definition create_employee ::
  "string \<Rightarrow> pydict \<Rightarrow> database \<Rightarrow> (error + employee) \<times> database" where
  "create_employee now data db =
     (case validate_employee_data data of
        Inl e \<Rightarrow> (Inl e, db)
      | Inr (is_valid, errors) \<Rightarrow>
          if \<not> is_valid then (Inl (ValidationError errors), db)
          else
            case and_then (dict_index data ''email'') (select_id_by_email db) of
              Inl e \<Rightarrow> (Inl e, db)
            | Inr (Some existing) \<Rightarrow>
                (Inl (UniqueConstraintError (already_exists (dict_get data ''email''))), db)
            | Inr None \<Rightarrow>
                (case insert_params data of
                   Inl e \<Rightarrow> (Inl e, db)
                 | Inr params \<Rightarrow>
                     (case execute_insert now params db of
                        (Inl e, db') \<Rightarrow> (Inl e, db')
                      | (Inr employee_id, db') \<Rightarrow> (get_employee_by_id employee_id db', db'))))"

definition get_all_employees :: "int \<Rightarrow> int \<Rightarrow> database \<Rightarrow> error + employee list" where
  "get_all_employees limit offset db =
     (case select_page db limit offset of
        Inl e \<Rightarrow> Inl e
      | Inr rows \<Rightarrow> Inr (map from_dict rows))"

text \<open>The candidate record of an update: the supplied fields over the existing
  values.\<close>

definition update_data :: "employee \<Rightarrow> pydict \<Rightarrow> pydict" where
  "update_data existing data =
     [''first_name'' \<mapsto> dict_get_default data ''first_name'' (VStr (first_name existing)),
      ''last_name'' \<mapsto> dict_get_default data ''last_name'' (VStr (last_name existing)),
      ''email'' \<mapsto> dict_get_default data ''email'' (VStr (email existing)),
      ''position'' \<mapsto> dict_get_default data ''position'' (VStr (position existing)),
      ''salary'' \<mapsto> dict_get_default data ''salary'' (VFloat (salary existing))]"

text \<open>The uniqueness check of an update: \<open>True\<close> when another employee has the
  email.\<close>

definition duplicate_email :: "int \<Rightarrow> employee \<Rightarrow> pydict \<Rightarrow> database \<Rightarrow> error + bool" where
  "duplicate_email employee_id existing data db =
     (case data ''email'' of
        None \<Rightarrow> Inr False
      | Some v \<Rightarrow>
          if v \<noteq> VStr (email existing)
          then and_then (select_id_by_email_except db v employee_id)
                 (\<lambda>duplicate. Inr (duplicate \<noteq> None))
          else Inr False)"

text \<open>\<^verbatim>\<open>update_fields\<close> and \<^verbatim>\<open>update_values\<close>, filled in the order of the source.\<close>

definition if_present :: "pydict \<Rightarrow> string \<Rightarrow> (pyval \<Rightarrow> error + 'a) \<Rightarrow> error + 'a option" where
  "if_present data k f =
     (case data k of
        None \<Rightarrow> Inr None
      | Some v \<Rightarrow> and_then (f v) (\<lambda>x. Inr (Some x)))"

definition update_values :: "pydict \<Rightarrow> error + changes" where
  "update_values data =
     and_then (if_present data ''first_name'' py_strip) (\<lambda>fname.
     and_then (if_present data ''last_name'' py_strip) (\<lambda>lname.
     and_then (if_present data ''email'' py_strip) (\<lambda>em.
     and_then (if_present data ''position'' py_strip) (\<lambda>pos.
     and_then (if_present data ''salary'' py_float) (\<lambda>sal.
     Inr \<lparr>set_first_name = fname, set_last_name = lname, set_email = em,
          set_position = pos, set_salary = sal\<rparr>)))))"

definition update_employee ::
  "int \<Rightarrow> pydict \<Rightarrow> database \<Rightarrow> (error + employee) \<times> database" where
  "update_employee employee_id data db =
     (case get_employee_by_id employee_id db of
        Inl e \<Rightarrow> (Inl e, db)
      | Inr existing \<Rightarrow>
          (case validate_employee_data (update_data existing data) of
             Inl e \<Rightarrow> (Inl e, db)
           | Inr (is_valid, errors) \<Rightarrow>
               if \<not> is_valid then (Inl (ValidationError errors), db)
               else
                 case duplicate_email employee_id existing data db of
                   Inl e \<Rightarrow> (Inl e, db)
                 | Inr True \<Rightarrow>
                     (Inl (UniqueConstraintError (already_exists (dict_get data ''email''))), db)
                 | Inr False \<Rightarrow>
                     (case update_values data of
                        Inl e \<Rightarrow> (Inl e, db)
                      | Inr ch \<Rightarrow>
                          if ch \<noteq> no_changes
                          then (case execute_update ch employee_id db of
                                  (Inl e, db') \<Rightarrow> (Inl e, db')
                                | (Inr n, db') \<Rightarrow> (get_employee_by_id employee_id db', db'))
                          else (get_employee_by_id employee_id db, db))))"

text \<open>The confirmation of a delete: \<^verbatim>\<open>{"id": ..., "message": ...}\<close>.\<close>

record confirmation =
  deleted_id :: int
  message :: string

definition delete_employee :: "int \<Rightarrow> database \<Rightarrow> (error + confirmation) \<times> database" where
  "delete_employee employee_id db =
     (case get_employee_by_id employee_id db of
        Inl e \<Rightarrow> (Inl e, db)
      | Inr emp \<Rightarrow>
          (case execute_delete employee_id db of
             (Inl e, db') \<Rightarrow> (Inl e, db')
           | (Inr n, db') \<Rightarrow>
               (Inr \<lparr>deleted_id = employee_id,
                     message = ''Employee '' @ first_name emp @ '' '' @ last_name emp
                                 @ '' deleted successfully''\<rparr>,
                db')))"

definition get_employee_count :: "database \<Rightarrow> nat" where
  "get_employee_count db = length (employees db)"

section \<open>Notions used in the statements\<close>

text \<open>A value passes the presence check (the label plays no part in it).\<close>

definition nonblank :: "pyval \<Rightarrow> bool" where
  "nonblank v = fst (validate_required_field v [])"



text \<open>A regular expression without words, by its form.\<close>

fun dead :: "regex \<Rightarrow> bool" where
  "dead RNone = True"
| "dead REps = False"
| "dead (RSet cs) = False"
| "dead (RSeq r s) = (dead r \<or> dead s)"
| "dead (RAlt r s) = (dead r \<and> dead s)"
| "dead (RStar r) = False"

text \<open>A list of entities in strictly ascending order of their ids.\<close>

definition id_less :: "employee \<Rightarrow> employee \<Rightarrow> bool" where
  "id_less a b = (case (id' a, id' b) of (Some i, Some j) \<Rightarrow> i < j | _ \<Rightarrow> False)"

definition ascending_ids :: "employee list \<Rightarrow> bool" where
  "ascending_ids es = sorted_wrt id_less es"

text \<open>A record that passes validation, for the examples.\<close>

definition valid_fields :: pydict where
  "valid_fields =
     [''first_name'' \<mapsto> VStr ''A'', ''last_name'' \<mapsto> VStr ''B'',
      ''email'' \<mapsto> VStr ''a@b.co'', ''position'' \<mapsto> VStr ''Eng'',
      ''salary'' \<mapsto> VInt 50000]"

text \<open>Stores for the examples: the empty one, and one with two employees.\<close>

definition empty_db :: database where
  "empty_db = \<lparr>employees = [], sqlite_sequence = 0\<rparr>"

definition row_a :: employees_row where
  "row_a =
     \<lparr>col_id = 1, col_first_name = ''A'', col_last_name = ''B'', col_email = ''a@b.co'',
      col_position = ''Eng'', col_salary = Fin 50000,
      col_created_at = Some ''2026-01-01 09:00:00''\<rparr>"

definition row_b :: employees_row where
  "row_b =
     \<lparr>col_id = 2, col_first_name = ''C'', col_last_name = ''D'', col_email = ''c@d.org'',
      col_position = ''Ops'', col_salary = Fin 40000,
      col_created_at = Some ''2026-01-02 09:00:00''\<rparr>"

definition db_ab :: database where
  "db_ab = \<lparr>employees = [row_a, row_b], sqlite_sequence = 2\<rparr>"

text \<open>A store of four employees, whose rows are not in the order of their ids.\<close>

definition row_c :: employees_row where
  "row_c =
     \<lparr>col_id = 3, col_first_name = ''E'', col_last_name = ''F'', col_email = ''e@f.net'',
      col_position = ''Eng'', col_salary = Fin 45000,
      col_created_at = Some ''2026-01-03 09:00:00''\<rparr>"

definition row_d :: employees_row where
  "row_d =
     \<lparr>col_id = 4, col_first_name = ''G'', col_last_name = ''H'', col_email = ''g@h.io'',
      col_position = ''Ops'', col_salary = Fin 42000,
      col_created_at = Some ''2026-01-04 09:00:00''\<rparr>"

definition db_four :: database where
  "db_four = \<lparr>employees = [row_c, row_a, row_d, row_b], sqlite_sequence = 4\<rparr>"

text \<open>All the employees of the store, in the order of their ids.\<close>

definition ordered_employees :: "database \<Rightarrow> employee list" where
  "ordered_employees db = map from_dict (sort_key col_id (employees db))"

section \<open>Validation: auxiliary facts\<close>

lemma update_not_Nil [simp]: "AList.update k v xs \<noteq> []"
  by (cases xs) auto

lemma vrf_eq: "validate_required_field v l = (if nonblank v then (True, []) else (False, l @ '' is required''))"
  by (simp add: nonblank_def validate_required_field_def)

lemma nonblank_truthy: "nonblank v \<Longrightarrow> truthy v"
  by (auto simp: nonblank_def validate_required_field_def split: if_splits)

lemma nonblank_VStr [simp]: "nonblank (VStr s) = (strip s \<noteq> [])"
  by (auto simp: nonblank_def validate_required_field_def strip_def)

lemma required_errors_eq:
  "required_errors data =
     (if nonblank (dict_get data ''first_name'') then [] else [(''first_name'', ''First Name is required'')]) @
     (if nonblank (dict_get data ''last_name'') then [] else [(''last_name'', ''Last Name is required'')]) @
     (if nonblank (dict_get data ''email'') then [] else [(''email'', ''Email is required'')]) @
     (if nonblank (dict_get data ''position'') then [] else [(''position'', ''Position is required'')]) @
     (if nonblank (dict_get data ''salary'') then [] else [(''salary'', ''Salary is required'')])"
  by (simp add: required_errors_def required_fields_def vrf_eq)

lemma required_errors_Nil:
  "required_errors data = [] \<longleftrightarrow>
     nonblank (dict_get data ''first_name'') \<and> nonblank (dict_get data ''last_name'') \<and>
     nonblank (dict_get data ''email'') \<and> nonblank (dict_get data ''position'') \<and>
     nonblank (dict_get data ''salary'')"
  by (simp add: required_errors_eq)

lemma py_float_errors: "py_float v = Inl e \<Longrightarrow> e = TypeError \<or> e = ValueError \<or> e = OverflowError"
  by (cases v) (auto split: pyfloat.splits option.splits)

lemma validate_salary_Inl: "validate_salary v = Inl e \<longleftrightarrow> e = OverflowError \<and> py_float v = Inl OverflowError"
  by (auto simp: validate_salary_def split: sum.splits error.splits dest: py_float_errors)

lemma validate_salary_ok:
  "validate_salary v = Inr (True, m) \<longleftrightarrow> m = [] \<and> (\<exists>f. py_float v = Inr f \<and> \<not> float_le_zero f)"
  by (auto simp: validate_salary_def split: sum.splits error.splits)

lemma validate_email_ok:
  "fst (validate_email v) \<longleftrightarrow> (\<exists>s. v = VStr s \<and> s \<noteq> [] \<and> re_match_to_end email_pattern s)"
  by (cases v) (auto simp: validate_email_def)

lemma email_errors_Nil:
  "email_errors data errs = [] \<longleftrightarrow>
     errs = [] \<and> (case data ''email'' of None \<Rightarrow> True | Some v \<Rightarrow> truthy v \<longrightarrow> fst (validate_email v))"
  by (auto simp: email_errors_def split: option.splits prod.splits)

lemma salary_errors_Nil:
  "salary_errors data errs = Inr [] \<longleftrightarrow>
     errs = [] \<and> (case data ''salary'' of None \<Rightarrow> True
                  | Some v \<Rightarrow> v \<noteq> VNone \<longrightarrow> (\<exists>m. validate_salary v = Inr (True, m)))"
  by (auto simp: salary_errors_def split: option.splits prod.splits sum.splits)

lemma validate_result:
  "validate_employee_data data = Inr (ok, errs) \<Longrightarrow> ok = (errs = [])"
  by (auto simp: validate_employee_data_def split: sum.splits)

lemma validate_raises:
  "validate_employee_data data = Inl e \<Longrightarrow> e = OverflowError"
  by (auto simp: validate_employee_data_def salary_errors_def validate_salary_Inl
      split: sum.splits option.splits if_splits)

lemma valid_iff:
  "validate_employee_data data = Inr (True, errs) \<longleftrightarrow>
     errs = [] \<and>
     nonblank (dict_get data ''first_name'') \<and> nonblank (dict_get data ''last_name'') \<and>
     nonblank (dict_get data ''position'') \<and>
     (\<exists>s. data ''email'' = Some (VStr s) \<and> strip s \<noteq> [] \<and> re_match_to_end email_pattern s) \<and>
     (\<exists>v f. data ''salary'' = Some v \<and> nonblank v \<and> py_float v = Inr f \<and> \<not> float_le_zero f)"
  (is "?L \<longleftrightarrow> ?R")
proof
  assume ?L
  then have e: "errs = []" and s: "salary_errors data (email_errors data (required_errors data)) = Inr []"
    by (auto simp: validate_employee_data_def split: sum.splits)
  from s have a: "email_errors data (required_errors data) = []"
    and sal: "case data ''salary'' of None \<Rightarrow> True
                  | Some v \<Rightarrow> v \<noteq> VNone \<longrightarrow> (\<exists>m. validate_salary v = Inr (True, m))"
    by (simp_all add: salary_errors_Nil)
  from a have r: "required_errors data = []"
    and em: "case data ''email'' of None \<Rightarrow> True | Some v \<Rightarrow> truthy v \<longrightarrow> fst (validate_email v)"
    by (simp_all add: email_errors_Nil)
  from r have nb: "nonblank (dict_get data ''first_name'')" "nonblank (dict_get data ''last_name'')"
     "nonblank (dict_get data ''email'')" "nonblank (dict_get data ''position'')"
     "nonblank (dict_get data ''salary'')"
    by (simp_all add: required_errors_Nil)
  from nb(3) em have "\<exists>s. data ''email'' = Some (VStr s) \<and> strip s \<noteq> [] \<and> re_match_to_end email_pattern s"
    by (cases "data ''email''") (auto simp: dict_get_def validate_email_ok dest: nonblank_truthy)
  moreover from nb(5) sal have "\<exists>v f. data ''salary'' = Some v \<and> nonblank v \<and> py_float v = Inr f \<and> \<not> float_le_zero f"
    by (cases "data ''salary''") (auto simp: dict_get_def validate_salary_ok dest: nonblank_truthy)
  ultimately show ?R using e nb by simp
next
  assume R: ?R
  then obtain s where s: "data ''email'' = Some (VStr s)" "strip s \<noteq> []" "re_match_to_end email_pattern s"
    by blast
  from R obtain v f where v: "data ''salary'' = Some v" "nonblank v" "py_float v = Inr f" "\<not> float_le_zero f"
    by blast
  have sne: "s \<noteq> []" using s(2) by (auto simp: strip_def)
  have r: "required_errors data = []"
    using R s v by (simp add: required_errors_Nil dict_get_def)
  have a: "email_errors data [] = []"
    using s sne by (simp add: email_errors_Nil validate_email_ok)
  have vne: "v \<noteq> VNone" using v(2) by (auto dest: nonblank_truthy)
  have "salary_errors data [] = Inr []"
    using v vne by (simp add: salary_errors_Nil validate_salary_ok)
  with r a show ?L using R by (simp add: validate_employee_data_def)
qed

lemma dead_not_nullable: "dead r \<Longrightarrow> \<not> nullable r"
  by (induction r) auto

lemma dead_deriv: "dead r \<Longrightarrow> dead (deriv c r)"
  by (induction r) (auto simp: dead_not_nullable)

lemma dead_no_match: "dead r \<Longrightarrow> \<not> fullmatch r w"
  by (induction w arbitrary: r) (auto simp: dead_not_nullable dead_deriv)

lemma isspace_not_local: "isspace c \<Longrightarrow> \<not> local_char c"
  by (auto simp: isspace_def local_char_def is_alpha_def is_lower_def is_upper_def is_digit_def)

lemma email_first_char:
  assumes "\<not> local_char c"
  shows "\<not> fullmatch email_pattern (c # w)"
proof -
  have "dead (deriv c email_pattern)"
    using assms by (simp add: email_pattern_def RPlus_def RChar_def RAtLeast2_def)
  then show ?thesis by (simp add: dead_no_match)
qed

lemma email_not_nullable: "\<not> nullable email_pattern"
  by (simp add: email_pattern_def RPlus_def RChar_def RAtLeast2_def)

lemma strip_Nil_iff: "strip s = [] \<longleftrightarrow> (\<forall>c \<in> set s. isspace c)"
proof
  assume "strip s = []"
  then have "dropWhile isspace (rev (dropWhile isspace s)) = []" by (simp add: strip_def)
  then have "\<forall>c \<in> set (dropWhile isspace s). isspace c" by (simp add: dropWhile_eq_Nil_conv)
  then have "dropWhile isspace s = []"
    by (metis hd_dropWhile list.set_sel(1))
  then show "\<forall>c \<in> set s. isspace c" by (simp add: dropWhile_eq_Nil_conv)
next
  assume "\<forall>c \<in> set s. isspace c"
  then show "strip s = []"
    by (auto simp: strip_def dropWhile_eq_Nil_conv dest: set_dropWhileD)
qed

lemma blank_no_match:
  assumes "strip s = []"
  shows "\<not> re_match_to_end email_pattern s"
proof (cases s)
  case Nil
  then show ?thesis by (simp add: re_match_to_end_def email_not_nullable)
next
  case (Cons c w)
  with assms have "isspace c" by (simp add: strip_Nil_iff)
  then have nl: "\<not> local_char c" by (rule isspace_not_local)
  have "\<not> fullmatch email_pattern s" using Cons nl email_first_char by blast
  moreover have "\<not> fullmatch email_pattern (butlast s)"
  proof (cases w)
    case Nil
    with Cons show ?thesis by (simp add: email_not_nullable)
  next
    case (Cons d w')
    with \<open>s = c # w\<close> have "butlast s = c # butlast w" by simp
    then show ?thesis using nl email_first_char by metis
  qed
  ultimately show ?thesis by (simp add: re_match_to_end_def)
qed

lemma map_of_salary_errors:
  "salary_errors data errs = Inr errs' \<Longrightarrow> k \<noteq> ''salary'' \<Longrightarrow> map_of errs' k = map_of errs k"
  by (auto simp: salary_errors_def update_conv' split: option.splits if_splits sum.splits)

lemma validate_returns:
  "py_float (dict_get data ''salary'') \<noteq> Inl OverflowError
     \<Longrightarrow> \<exists>errs. validate_employee_data data = Inr (errs = [], errs)"
  by (cases "validate_employee_data data")
     (auto simp: validate_employee_data_def salary_errors_def validate_salary_Inl dict_get_def
        split: sum.splits option.splits if_splits)

lemma map_of_email_errors:
  "data ''email'' = Some v \<Longrightarrow>
   map_of (email_errors data errs) ''email'' =
     (if truthy v \<and> \<not> fst (validate_email v) then Some (snd (validate_email v))
      else map_of errs ''email'')"
  by (auto simp: email_errors_def update_conv' split: prod.splits)

lemma map_of_required_email:
  "map_of (required_errors data) ''email'' =
     (if nonblank (dict_get data ''email'') then None else Some ''Email is required'')"
  by (simp add: required_errors_eq)

lemma map_of_required_salary:
  "map_of (required_errors data) ''salary'' =
     (if nonblank (dict_get data ''salary'') then None else Some ''Salary is required'')"
  by (simp add: required_errors_eq)

lemma dict_get_upd [simp]:
  "dict_get (d(k \<mapsto> v)) k' = (if k' = k then v else dict_get d k')"
  by (simp add: dict_get_def)

lemma other_fields_valid:
  assumes "validate_employee_data (data(''salary'' \<mapsto> w)) = Inr (True, es)"
  shows "required_errors data =
           (if nonblank (dict_get data ''salary'') then [] else [(''salary'', ''Salary is required'')])"
    and "email_errors data errs = errs"
proof -
  from assms obtain s where
    nb: "nonblank (dict_get data ''first_name'')" "nonblank (dict_get data ''last_name'')"
        "nonblank (dict_get data ''position'')"
    and s: "data ''email'' = Some (VStr s)" "strip s \<noteq> []" "re_match_to_end email_pattern s"
    by (auto simp: valid_iff)
  from s(2) have sne: "s \<noteq> []" by (auto simp: strip_def)
  from nb s show "required_errors data =
           (if nonblank (dict_get data ''salary'') then [] else [(''salary'', ''Salary is required'')])"
    by (simp add: required_errors_eq dict_get_def)
  from s sne show "email_errors data errs = errs"
    by (simp add: email_errors_def validate_email_def)
qed

lemma validate_no_salary:
  "data ''salary'' = None \<Longrightarrow>
   validate_employee_data data =
     Inr (email_errors data (required_errors data) = [], email_errors data (required_errors data))"
  by (simp add: validate_employee_data_def salary_errors_def)

lemma validate_with_salary:
  "data ''salary'' = Some v \<Longrightarrow> v \<noteq> VNone \<Longrightarrow> validate_salary v = Inr (False, m) \<Longrightarrow>
   validate_employee_data data =
     Inr (False, AList.update ''salary'' m (email_errors data (required_errors data)))"
  by (simp add: validate_employee_data_def salary_errors_def)

lemma validate_salary_not_number:
  "py_float v = Inl TypeError \<or> py_float v = Inl ValueError \<Longrightarrow>
   validate_salary v = Inr (False, ''Salary must be a valid number'')"
  by (auto simp: validate_salary_def)

lemma py_float_50000: "py_float (VInt 50000) = Inr (Fin 50000)"
  by code_simp

section \<open>Validation: the claims\<close>

text \<open>
  Claim C3, as amended. The email-shape check is guarded by the truth value of the
  field, not by its being blank after trimming. For a record whose email is present
  and falsy (the empty string, for one) the shape check is skipped, the errors are
  those of the presence check, and validate reports \<^verbatim>\<open>Email is required\<close>. For
  a record whose email is a non-empty string of whitespace only, the shape check
  runs and its message replaces the presence error: validate reports
  \<^verbatim>\<open>Email format is invalid\<close>. In both cases validate returns (the salary being
  no integer beyond the range of a float) and the record is invalid.
\<close>

theorem blank_email_errors:
  assumes "data ''email'' = Some v"
    and "py_float (dict_get data ''salary'') \<noteq> Inl OverflowError"
  shows "(\<not> truthy v \<longrightarrow>
            email_errors data (required_errors data) = required_errors data \<and>
            (\<exists>errors. validate_employee_data data = Inr (False, errors) \<and>
               map_of errors ''email'' = Some ''Email is required'')) \<and>
         (\<forall>s. v = VStr s \<and> s \<noteq> [] \<and> strip s = [] \<longrightarrow>
            (\<exists>errors. validate_employee_data data = Inr (False, errors) \<and>
               map_of errors ''email'' = Some ''Email format is invalid''))"
proof -
  from assms(2) obtain errs where v: "validate_employee_data data = Inr (errs = [], errs)"
    using validate_returns by blast
  then have s: "salary_errors data (email_errors data (required_errors data)) = Inr errs"
    by (auto simp: validate_employee_data_def split: sum.splits)
  then have m: "map_of errs ''email'' = map_of (email_errors data (required_errors data)) ''email''"
    by (rule map_of_salary_errors) simp
  have a: "map_of errs ''email'' = Some ''Email is required''" if "\<not> truthy v"
  proof -
    have "\<not> nonblank (dict_get data ''email'')"
      using that assms(1) by (auto simp: dict_get_def dest: nonblank_truthy)
    then show ?thesis using m that assms(1)
      by (simp add: map_of_email_errors map_of_required_email)
  qed
  have b: "map_of errs ''email'' = Some ''Email format is invalid''"
    if "v = VStr s" "s \<noteq> []" "strip s = []" for s
  proof -
    have "\<not> re_match_to_end email_pattern s" using that(3) by (rule blank_no_match)
    then show ?thesis using m that assms(1)
      by (simp add: map_of_email_errors validate_email_def)
  qed
  have ne: "errs \<noteq> []" if "map_of errs ''email'' = Some x" for x
    using that by auto
  show ?thesis
  proof (intro conjI allI impI)
    assume "\<not> truthy v"
    then show "email_errors data (required_errors data) = required_errors data"
      using assms(1) by (simp add: email_errors_def)
  next
    assume nt: "\<not> truthy v"
    from a[OF nt] ne v show "\<exists>errors. validate_employee_data data = Inr (False, errors) \<and>
               map_of errors ''email'' = Some ''Email is required''"
      by auto
  next
    fix s assume "v = VStr s \<and> s \<noteq> [] \<and> strip s = []"
    then have "map_of errs ''email'' = Some ''Email format is invalid''" using b by blast
    with ne v show "\<exists>errors. validate_employee_data data = Inr (False, errors) \<and>
               map_of errors ''email'' = Some ''Email format is invalid''"
      by auto
  qed
qed

text \<open>The theorem at the empty email and at an email of two spaces.\<close>

theorem blank_email_errors_witness:
  "(\<exists>errors. validate_employee_data (valid_fields(''email'' \<mapsto> VStr [])) = Inr (False, errors) \<and>
      map_of errors ''email'' = Some ''Email is required'') \<and>
   (\<exists>errors. validate_employee_data (valid_fields(''email'' \<mapsto> VStr ''  '')) = Inr (False, errors) \<and>
      map_of errors ''email'' = Some ''Email format is invalid'')"
proof -
  have s: "py_float (dict_get (valid_fields(''email'' \<mapsto> VStr e)) ''salary'') \<noteq> Inl OverflowError" for e
    by (simp add: valid_fields_def dict_get_def py_float_50000 del: py_float.simps)
  have b: "strip ''  '' = []"
    by (simp add: strip_def isspace_def)
  have "(valid_fields(''email'' \<mapsto> VStr e)) ''email'' = Some (VStr e)" for e
    by simp
  from blank_email_errors [OF this s] b show ?thesis
    by simp
qed

text \<open>Claim C3 as it is written fails: an email of three spaces is present and blank
  after trimming, and validate reports the shape error for it, not the presence
  error.\<close>

theorem blank_email_counterexample:
  "strip ''   '' = [] \<and>
   validate_employee_data (valid_fields(''email'' \<mapsto> VStr ''   '')) =
     Inr (False, [(''email'', ''Email format is invalid'')])"
  by code_simp

text \<open>
  Claim C5. The errors of the fields are independent. Let the other four fields be
  valid, which is to say that the record passes validation once a good salary is
  put in. If the record has no salary, validate returns exactly the presence error
  \<^verbatim>\<open>{salary: "Salary is required"}\<close>. If the salary is present, not null, and no
  number (\<^verbatim>\<open>float\<close> raises \<^verbatim>\<open>TypeError\<close> or \<^verbatim>\<open>ValueError\<close> on it, as on
  \<^verbatim>\<open>"abc"\<close>), validate returns exactly the numeric error
  \<^verbatim>\<open>{salary: "Salary must be a valid number"}\<close>.
\<close>

theorem salary_error_kinds:
  assumes "validate_employee_data (data(''salary'' \<mapsto> VInt 1)) = Inr (True, [])"
  shows "(data ''salary'' = None \<longrightarrow>
            validate_employee_data data = Inr (False, [(''salary'', ''Salary is required'')])) \<and>
         (\<forall>v. data ''salary'' = Some v \<and> v \<noteq> VNone \<and>
               (py_float v = Inl TypeError \<or> py_float v = Inl ValueError) \<longrightarrow>
            validate_employee_data data =
              Inr (False, [(''salary'', ''Salary must be a valid number'')]))"
proof (intro conjI allI impI)
  assume n: "data ''salary'' = None"
  then have "\<not> nonblank (dict_get data ''salary'')"
    by (simp add: dict_get_def nonblank_def validate_required_field_def)
  with n other_fields_valid [OF assms] show
    "validate_employee_data data = Inr (False, [(''salary'', ''Salary is required'')])"
    by (simp add: validate_no_salary)
next
  fix v
  assume "data ''salary'' = Some v \<and> v \<noteq> VNone \<and>
               (py_float v = Inl TypeError \<or> py_float v = Inl ValueError)"
  then have v: "data ''salary'' = Some v" "v \<noteq> VNone"
    and "validate_salary v = Inr (False, ''Salary must be a valid number'')"
    by (simp_all add: validate_salary_not_number)
  then have "validate_employee_data data =
     Inr (False, AList.update ''salary'' ''Salary must be a valid number''
                   (email_errors data (required_errors data)))"
    by (rule validate_with_salary)
  with other_fields_valid [OF assms] show
    "validate_employee_data data = Inr (False, [(''salary'', ''Salary must be a valid number'')])"
    by simp
qed


text \<open>The theorem at the record of the specification, without a salary and with the
  salary \<^verbatim>\<open>"abc"\<close>.\<close>

theorem salary_error_kinds_witness:
  "validate_employee_data (valid_fields(''salary'' \<mapsto> VInt 1)) = Inr (True, []) \<and>
   validate_employee_data (valid_fields(''salary'' := None)) =
     Inr (False, [(''salary'', ''Salary is required'')]) \<and>
   py_float (VStr ''abc'') = Inl ValueError \<and>
   validate_employee_data (valid_fields(''salary'' \<mapsto> VStr ''abc'')) =
     Inr (False, [(''salary'', ''Salary must be a valid number'')])"
proof -
  have h: "validate_employee_data (valid_fields(''salary'' \<mapsto> VInt 1)) = Inr (True, [])"
    by code_simp
  have a: "py_float (VStr ''abc'') = Inl ValueError"
    by code_simp
  from h have h1:
    "validate_employee_data ((valid_fields(''salary'' := None))(''salary'' \<mapsto> VInt 1)) = Inr (True, [])"
    by simp
  from h have h2:
    "validate_employee_data ((valid_fields(''salary'' \<mapsto> VStr ''abc''))(''salary'' \<mapsto> VInt 1)) =
       Inr (True, [])"
    by simp
  from salary_error_kinds [OF h1] salary_error_kinds [OF h2] h a show ?thesis
    by simp
qed

text \<open>
  Claim C10. For a record whose salary is present and is the number zero (the
  integer or the float), the presence check fails on the falsy value and records
  \<^verbatim>\<open>Salary is required\<close>; the salary check that follows replaces it under the same
  key. Validate returns invalid, and the error of the salary is
  \<^verbatim>\<open>Salary must be greater than 0\<close>; when the other fields are valid, that is the
  only error.
\<close>

theorem zero_salary_error:
  assumes "data ''salary'' = Some v" and "v = VInt 0 \<or> v = VFloat (Fin 0)"
  shows "map_of (required_errors data) ''salary'' = Some ''Salary is required'' \<and>
         (\<exists>errors. validate_employee_data data = Inr (False, errors) \<and>
            map_of errors ''salary'' = Some ''Salary must be greater than 0'') \<and>
         (validate_employee_data (data(''salary'' \<mapsto> VInt 1)) = Inr (True, []) \<longrightarrow>
            validate_employee_data data =
              Inr (False, [(''salary'', ''Salary must be greater than 0'')]))"
proof -
  from assms(2) have f: "py_float v = Inr (Fin 0)"
    by (auto simp: float_round_def)
  then have vs: "validate_salary v = Inr (False, ''Salary must be greater than 0'')"
    by (simp add: validate_salary_def)
  from assms(2) have ne: "v \<noteq> VNone" by auto
  from assms have nb: "\<not> nonblank (dict_get data ''salary'')"
    by (auto simp: dict_get_def nonblank_def validate_required_field_def)
  have v: "validate_employee_data data =
     Inr (False, AList.update ''salary'' ''Salary must be greater than 0''
                   (email_errors data (required_errors data)))"
    using assms(1) ne vs by (rule validate_with_salary)
  have 1: "map_of (required_errors data) ''salary'' = Some ''Salary is required''"
    using nb by (simp add: map_of_required_salary)
  have 2: "\<exists>errors. validate_employee_data data = Inr (False, errors) \<and>
            map_of errors ''salary'' = Some ''Salary must be greater than 0''"
    using v by (simp add: update_conv')
  have 3: "validate_employee_data data =
              Inr (False, [(''salary'', ''Salary must be greater than 0'')])"
    if "validate_employee_data (data(''salary'' \<mapsto> VInt 1)) = Inr (True, [])"
    using v nb other_fields_valid [OF that] by simp
  from 1 2 3 show ?thesis by blast
qed

text \<open>The theorem at the record of the examples with the salary 0.\<close>

theorem zero_salary_error_witness:
  "map_of (required_errors (valid_fields(''salary'' \<mapsto> VInt 0))) ''salary'' =
     Some ''Salary is required'' \<and>
   validate_employee_data (valid_fields(''salary'' \<mapsto> VInt 0)) =
     Inr (False, [(''salary'', ''Salary must be greater than 0'')])"
proof -
  have h: "validate_employee_data ((valid_fields(''salary'' \<mapsto> VInt 0))(''salary'' \<mapsto> VInt 1)) =
             Inr (True, [])"
    by code_simp
  have "(valid_fields(''salary'' \<mapsto> VInt 0)) ''salary'' = Some (VInt 0)"
    by simp
  from zero_salary_error [of "valid_fields(''salary'' \<mapsto> VInt 0)" "VInt 0", OF this] h
  show ?thesis
    by simp
qed

section \<open>The service: auxiliary facts\<close>

lemma find_member: "r \<in> set xs \<Longrightarrow> P r \<Longrightarrow> find P xs \<noteq> None"
  by (auto simp: find_None_iff)

lemma valid_email_str:
  "validate_employee_data data = Inr (True, errs) \<Longrightarrow> \<exists>s. data ''email'' = Some (VStr s)"
  by (auto simp: valid_iff)


lemma ascending_from_dict:
  "ascending_ids (map from_dict rows) = sorted_wrt (<) (map col_id rows)"
  by (simp add: ascending_ids_def sorted_wrt_map id_less_def from_dict_def)

lemma sorted_rows_strict:
  assumes "distinct (map col_id rows)"
  shows "sorted_wrt (<) (map col_id (sort_key col_id rows))"
proof -
  have "sorted (map col_id (sort_key col_id rows))" by simp
  moreover have "distinct (map col_id (sort_key col_id rows))"
    using assms by (simp add: distinct_map inj_on_def) 
  ultimately show ?thesis by (simp add: strict_sorted_iff)
qed

lemma select_page_in_range:
  assumes "- (2 ^ 63) \<le> limit" "limit < 2 ^ 63" "- (2 ^ 63) \<le> offset" "offset < 2 ^ 63"
  shows "select_page db limit offset =
           Inr (if limit < 0 then drop (nat offset) (sort_key col_id (employees db))
                else take (nat limit) (drop (nat offset) (sort_key col_id (employees db))))"
  using assms by (simp add: select_page_def bind_int_def)

lemma select_page_sublist:
  assumes "select_page db limit offset = Inr rows"
  shows "\<exists>k n. rows = take n (drop k (sort_key col_id (employees db)))"
proof -
  let ?rest = "drop (nat offset) (sort_key col_id (employees db))"
  from assms have r: "rows = (if limit < 0 then ?rest else take (nat limit) ?rest)"
    by (auto simp: select_page_def bind_int_def Let_def split: if_splits)
  show ?thesis
  proof (cases "limit < 0")
    case True
    with r have "rows = take (length (employees db)) ?rest" by simp
    then show ?thesis by blast
  next
    case False
    with r show ?thesis by auto
  qed
qed

lemma from_dict_inj: "inj from_dict"
  by (rule injI) (simp add: from_dict_def employees_row.equality)


lemma select_by_id_Inr:
  "select_by_id db i = Inr x \<longleftrightarrow>
     - (2 ^ 63) \<le> i \<and> i < 2 ^ 63 \<and> x = find (\<lambda>r. col_id r = i) (employees db)"
  by (auto simp: select_by_id_def bind_int_def)

lemma get_by_id:
  "select_by_id db i = Inr (Some r) \<Longrightarrow> get_employee_by_id i db = Inr (from_dict r)"
  by (simp add: get_employee_by_id_def)

lemma get_errors:
  "get_employee_by_id i db = Inl e \<Longrightarrow>
   e = NotFoundError (''Employee with id '' @ str_of_int i @ '' not found'') \<or> e = OverflowError"
  by (auto simp: get_employee_by_id_def select_by_id_def bind_int_def
      split: option.splits sum.splits if_splits)



lemma nonblank_VFloat [simp]: "nonblank (VFloat f) = (f \<noteq> Fin 0)"
  by (simp add: nonblank_def validate_required_field_def)



lemma update_values_errors:
  "update_values data = Inl e \<Longrightarrow> e \<noteq> UniqueConstraintError m"
  by (auto simp: update_values_def if_present_def and_then_def
      split: sum.splits option.splits elim!: py_strip.elims dest!: py_float_errors)

lemma execute_update_errors:
  "execute_update ch i db = (Inl e, db') \<Longrightarrow> e \<noteq> UniqueConstraintError m"
  by (auto simp: execute_update_def bind_int_def split: if_splits)

lemma foldl_max_ge: "a \<le> foldl max a (xs :: int list)"
  by (induction xs arbitrary: a) (auto intro: order_trans [OF max.cobounded1])

lemma foldl_max_member: "x \<in> set xs \<Longrightarrow> x \<le> foldl max a (xs :: int list)"
proof (induction xs arbitrary: a)
  case Nil
  then show ?case by simp
next
  case (Cons y ys)
  show ?case
  proof (cases "x = y")
    case True
    have "y \<le> max a y" by simp
    also have "\<dots> \<le> foldl max (max a y) ys" by (rule foldl_max_ge)
    finally show ?thesis using True by simp
  next
    case False
    with Cons show ?thesis by simp
  qed
qed

lemma le_largest_rowid: "r \<in> set (employees db) \<Longrightarrow> col_id r \<le> largest_rowid db"
  by (simp add: largest_rowid_def foldl_max_member)

lemma find_fresh_id:
  assumes "\<forall>r \<in> set xs. col_id r \<noteq> col_id row"
  shows "find (\<lambda>r. col_id r = col_id row) (xs @ [row]) = Some row"
  using assms by (induction xs) auto

lemma execute_insert_Inr:
  assumes "execute_insert now (fname, lname, em, pos, sal) db = (Inr i, db')"
  shows "find (\<lambda>r. col_id r = i) (employees db') =
           Some \<lparr>col_id = i, col_first_name = fname, col_last_name = lname, col_email = em,
                 col_position = pos, col_salary = sal, col_created_at = Some now\<rparr>"
proof -
  let ?row = "\<lparr>col_id = largest_rowid db + 1, col_first_name = fname, col_last_name = lname,
               col_email = em, col_position = pos, col_salary = sal,
               col_created_at = Some now\<rparr>"
  from assms have i: "i = largest_rowid db + 1"
    and db': "db' = db\<lparr>employees := employees db @ [?row], sqlite_sequence := largest_rowid db + 1\<rparr>"
    by (auto simp: execute_insert_def Let_def split: if_splits)
  have "\<forall>r \<in> set (employees db). col_id r \<noteq> col_id ?row"
    using le_largest_rowid [of _ db] by fastforce
  then have "find (\<lambda>r. col_id r = col_id ?row) (employees db @ [?row]) = Some ?row"
    by (rule find_fresh_id)
  then show ?thesis
    by (simp add: i db')
qed

lemma insert_params_Inr:
  "insert_params data = Inr (fname, lname, em, pos, sal) \<Longrightarrow>
     and_then (dict_index data ''first_name'') py_strip = Inr fname \<and>
     and_then (dict_index data ''last_name'') py_strip = Inr lname \<and>
     and_then (dict_index data ''email'') py_strip = Inr em \<and>
     and_then (dict_index data ''position'') py_strip = Inr pos \<and>
     and_then (dict_index data ''salary'') py_float = Inr sal"
  unfolding insert_params_def
  by (cases "and_then (dict_index data ''first_name'') py_strip";
      cases "and_then (dict_index data ''last_name'') py_strip";
      cases "and_then (dict_index data ''email'') py_strip";
      cases "and_then (dict_index data ''position'') py_strip";
      cases "and_then (dict_index data ''salary'') py_float")
     (simp_all add: and_then_def)


section \<open>The service: the claims\<close>

text \<open>
  Claim C1, as amended. Validation comes first in \<^verbatim>\<open>create_employee\<close>. For every
  state of the store and every input mapping that passes validation and whose email
  is the email of a persisted employee, create fails with
  \<^verbatim>\<open>UniqueConstraintError\<close> keyed \<^verbatim>\<open>email\<close>, and the store, so also the employee
  count, is as before.
\<close>

theorem create_duplicate_email:
  assumes "validate_employee_data data = Inr (True, errors)"
    and "r \<in> set (employees db)"
    and "data ''email'' = Some (VStr (col_email r))"
  shows "create_employee now data db =
           (Inl (UniqueConstraintError
                   [(''email'', ''Email '' @ [CHR 0x27] @ col_email r @ [CHR 0x27]
                                  @ '' already exists'')]), db) \<and>
         get_employee_count (snd (create_employee now data db)) = get_employee_count db"
proof -
  have "find (\<lambda>x. col_email x = col_email r) (employees db) \<noteq> None"
    using assms(2) by (rule find_member) simp
  then obtain x where "find (\<lambda>x. col_email x = col_email r) (employees db) = Some x"
    by blast
  then have "and_then (dict_index data ''email'') (select_id_by_email db) = Inr (Some (col_id x))"
    using assms(3) by (simp add: and_then_def dict_index_def select_id_by_email_def)
  with assms(1,3) show ?thesis
    by (simp add: create_employee_def already_exists_def dict_get_def)
qed

text \<open>The theorem at the store of two employees and a valid record with the email of
  the first.\<close>

theorem create_duplicate_email_witness:
  "validate_employee_data valid_fields = Inr (True, []) \<and>
   row_a \<in> set (employees db_ab) \<and>
   valid_fields ''email'' = Some (VStr (col_email row_a)) \<and>
   create_employee ''2026-01-03 09:00:00'' valid_fields db_ab =
     (Inl (UniqueConstraintError [(''email'', ''Email '' @ [CHR 0x27] @ ''a@b.co'' @ [CHR 0x27] @ '' already exists'')]), db_ab) \<and>
   get_employee_count (snd (create_employee ''2026-01-03 09:00:00'' valid_fields db_ab)) = 2"
proof -
  have v: "validate_employee_data valid_fields = Inr (True, [])"
    by code_simp
  have r: "row_a \<in> set (employees db_ab)"
    by (simp add: db_ab_def)
  have e: "valid_fields ''email'' = Some (VStr (col_email row_a))"
    by (simp add: valid_fields_def row_a_def)
  have c: "get_employee_count db_ab = 2" "col_email row_a = ''a@b.co''"
    by (simp_all add: get_employee_count_def db_ab_def row_a_def)
  from create_duplicate_email [OF v r e] v r e c show ?thesis
    by simp
qed

text \<open>Claim C1 as it is written fails: a mapping that has the email of a persisted
  employee and nothing else is rejected by validation, with
  \<^verbatim>\<open>ValidationError\<close>.\<close>

theorem create_duplicate_email_counterexample:
  "row_a \<in> set (employees db_ab) \<and>
   [''email'' \<mapsto> VStr ''a@b.co''] ''email'' = Some (VStr (col_email row_a)) \<and>
   create_employee ''2026-01-03 09:00:00'' [''email'' \<mapsto> VStr ''a@b.co''] db_ab =
     (Inl (ValidationError
             [(''first_name'', ''First Name is required''),
              (''last_name'', ''Last Name is required''),
              (''position'', ''Position is required''),
              (''salary'', ''Salary is required'')]), db_ab)"
  by code_simp

text \<open>
  Claim C7, as amended. When an employee is persisted under the id, delete returns
  the confirmation with the id and the message that names the first and the last
  name of that employee, the store has lost the rows of that id and no other, and a
  get of the id on the new store raises \<^verbatim>\<open>NotFoundError\<close>. When the id fits a
  signed 64-bit integer and no employee is persisted under it, delete raises
  \<^verbatim>\<open>NotFoundError\<close> and the store is as before.
\<close>

theorem delete_employee_result:
  "(select_by_id db i = Inr (Some r) \<longrightarrow>
      delete_employee i db =
        (Inr \<lparr>deleted_id = i,
              message = ''Employee '' @ col_first_name r @ '' '' @ col_last_name r
                          @ '' deleted successfully''\<rparr>,
         db\<lparr>employees := filter (\<lambda>x. col_id x \<noteq> i) (employees db)\<rparr>) \<and>
      get_employee_by_id i (snd (delete_employee i db)) =
        Inl (NotFoundError (''Employee with id '' @ str_of_int i @ '' not found''))) \<and>
   (- (2 ^ 63) \<le> i \<and> i < 2 ^ 63 \<and> i \<notin> col_id ` set (employees db) \<longrightarrow>
      delete_employee i db =
        (Inl (NotFoundError (''Employee with id '' @ str_of_int i @ '' not found'')), db))"
proof (intro conjI impI)
  let ?db' = "db\<lparr>employees := filter (\<lambda>x. col_id x \<noteq> i) (employees db)\<rparr>"
  let ?nf = "NotFoundError (''Employee with id '' @ str_of_int i @ '' not found'')"
  {
    assume a: "select_by_id db i = Inr (Some r)"
    then have range: "- (2 ^ 63) \<le> i" "i < 2 ^ 63"
      by (simp_all add: select_by_id_Inr)
    have g: "get_employee_by_id i db = Inr (from_dict r)"
      using a by (rule get_by_id)
    have x: "execute_delete i db =
               (Inr (length (filter (\<lambda>r. col_id r = i) (employees db))), ?db')"
      using range by (simp add: execute_delete_def bind_int_def)
    show d: "delete_employee i db =
        (Inr \<lparr>deleted_id = i,
              message = ''Employee '' @ col_first_name r @ '' '' @ col_last_name r
                          @ '' deleted successfully''\<rparr>, ?db')"
      by (simp add: delete_employee_def g x from_dict_def)
    have "find (\<lambda>r. col_id r = i) (employees ?db') = None"
      by (simp add: find_None_iff)
    then have "select_by_id ?db' i = Inr None"
      using range by (simp add: select_by_id_Inr)
    then show "get_employee_by_id i (snd (delete_employee i db)) = Inl ?nf"
      by (simp add: d get_employee_by_id_def)
  }
  {
    assume "- (2 ^ 63) \<le> i \<and> i < 2 ^ 63 \<and> i \<notin> col_id ` set (employees db)"
    then have "select_by_id db i = Inr None"
      by (auto simp: select_by_id_Inr find_None_iff2)
    then show "delete_employee i db = (Inl ?nf, db)"
      by (simp add: delete_employee_def get_employee_by_id_def)
  }
qed

text \<open>The theorem at the store of two employees, for the id 2 that is there and the
  id 3 that is not.\<close>

theorem delete_employee_result_witness:
  "select_by_id db_ab 2 = Inr (Some row_b) \<and>
   delete_employee 2 db_ab =
     (Inr \<lparr>deleted_id = 2, message = ''Employee C D deleted successfully''\<rparr>,
      \<lparr>employees = [row_a], sqlite_sequence = 2\<rparr>) \<and>
   get_employee_by_id 2 (snd (delete_employee 2 db_ab)) =
     Inl (NotFoundError ''Employee with id 2 not found'') \<and>
   3 \<notin> col_id ` set (employees db_ab) \<and>
   delete_employee 3 db_ab = (Inl (NotFoundError ''Employee with id 3 not found''), db_ab)"
proof -
  have a: "select_by_id db_ab 2 = Inr (Some row_b)"
    by (simp add: select_by_id_def bind_int_def db_ab_def row_a_def row_b_def)
  have n: "3 \<notin> col_id ` set (employees db_ab)"
    by (simp add: db_ab_def row_a_def row_b_def)
  have s: "str_of_int 2 = ''2''" "str_of_int 3 = ''3''"
    by (simp_all add: str_of_int_def)
  have f: "db_ab\<lparr>employees := filter (\<lambda>x. col_id x \<noteq> 2) (employees db_ab)\<rparr> =
           \<lparr>employees = [row_a], sqlite_sequence = 2\<rparr>"
    by (simp add: db_ab_def row_a_def row_b_def)
  have m: "col_first_name row_b = ''C''" "col_last_name row_b = ''D''"
    by (simp_all add: row_b_def)
  have b: "- (2 ^ 63) \<le> (3 :: int) \<and> (3 :: int) < 2 ^ 63 \<and> 3 \<notin> col_id ` set (employees db_ab)"
    using n by simp
  note d2 = delete_employee_result [of db_ab 2 row_b, THEN conjunct1, rule_format, OF a]
  note d3 = delete_employee_result [of db_ab 3 row_b, THEN conjunct2, rule_format, OF b]
  have 1: "delete_employee 2 db_ab =
     (Inr \<lparr>deleted_id = 2, message = ''Employee C D deleted successfully''\<rparr>,
      \<lparr>employees = [row_a], sqlite_sequence = 2\<rparr>)"
    using d2 [THEN conjunct1] unfolding f m by simp
  have 2: "get_employee_by_id 2 (snd (delete_employee 2 db_ab)) =
     Inl (NotFoundError ''Employee with id 2 not found'')"
    using d2 [THEN conjunct2] unfolding s by simp
  have 3: "delete_employee 3 db_ab = (Inl (NotFoundError ''Employee with id 3 not found''), db_ab)"
    using d3 unfolding s by simp
  show ?thesis
    by (intro conjI a 1 2 n 3)
qed

text \<open>Claim C7 as it is written fails: no employee is persisted under the id
  \<open>2 ^ 63\<close>, which a request can name, and delete raises \<^verbatim>\<open>OverflowError\<close> for
  it, from the binding of the id to the statement, not \<^verbatim>\<open>NotFoundError\<close>.\<close>

theorem delete_employee_counterexample:
  "9223372036854775808 \<notin> col_id ` set (employees db_ab) \<and>
   delete_employee 9223372036854775808 db_ab = (Inl OverflowError, db_ab)"
  by (simp add: delete_employee_def get_employee_by_id_def select_by_id_def bind_int_def
      db_ab_def row_a_def row_b_def)

text \<open>
  Claim C8 does not hold of the code. The presence check lets a truthy value that is
  no string pass, and \<^verbatim>\<open>validate_email\<close> alone tests \<^verbatim>\<open>isinstance(email, str)\<close>.
  A record whose first name is the number 5 passes validation, and the
  \<^verbatim>\<open>.strip()\<close> of the insert then raises \<^verbatim>\<open>AttributeError\<close>, which is none of
  the three errors of the service and no failure of the store.
\<close>

theorem create_non_string_name:
  "validate_employee_data (valid_fields(''first_name'' \<mapsto> VInt 5)) = Inr (True, []) \<and>
   create_employee ''2026-01-03 09:00:00'' (valid_fields(''first_name'' \<mapsto> VInt 5)) empty_db =
     (Inl AttributeError, empty_db)"
  by code_simp

text \<open>
  Claim C9. Let the ids of the store be distinct, as the primary key has them. Every
  page that list returns is in strictly ascending order of id. When the limit and
  the offset fit signed 64-bit integers, as the store binds them, list returns the
  slice of the whole ordered list that they name (a negative limit is no limit).
  Over a store of four employees, the page of limit 2 and offset 0 and the page of
  limit 2 and offset 2 are returned, have two employees each, have none in common,
  hold between them the four employees of the store, and the first followed by the
  second is in ascending order of id.
\<close>

theorem list_pages:
  assumes "distinct (map col_id (employees db))"
  shows "(\<forall>es. get_all_employees limit offset db = Inr es \<longrightarrow> ascending_ids es) \<and>
         (- (2 ^ 63) \<le> limit \<and> limit < 2 ^ 63 \<and> - (2 ^ 63) \<le> offset \<and> offset < 2 ^ 63 \<longrightarrow>
            get_all_employees limit offset db =
              Inr (if limit < 0 then drop (nat offset) (ordered_employees db)
                   else take (nat limit) (drop (nat offset) (ordered_employees db)))) \<and>
         (length (employees db) = 4 \<longrightarrow>
            (\<exists>p1 p2.
               get_all_employees 2 0 db = Inr p1 \<and> get_all_employees 2 2 db = Inr p2 \<and>
               length p1 = 2 \<and> length p2 = 2 \<and>
               set p1 \<inter> set p2 = {} \<and>
               set p1 \<union> set p2 = from_dict ` set (employees db) \<and>
               ascending_ids (p1 @ p2)))"
proof (intro conjI allI impI)
  let ?xs = "sort_key col_id (employees db)"
  have strict: "sorted_wrt (<) (map col_id ?xs)"
    using assms by (rule sorted_rows_strict)
  {
    fix es
    assume "get_all_employees limit offset db = Inr es"
    then obtain rows where r: "select_page db limit offset = Inr rows" and es: "es = map from_dict rows"
      by (auto simp: get_all_employees_def split: sum.splits)
    from r obtain k n where "rows = take n (drop k ?xs)"
      using select_page_sublist by blast
    then have "map col_id rows = take n (drop k (map col_id ?xs))"
      by (simp add: take_map drop_map)
    with strict show "ascending_ids es"
      by (simp add: es ascending_from_dict sorted_wrt_take sorted_wrt_drop)
  }
  {
    assume "- (2 ^ 63) \<le> limit \<and> limit < 2 ^ 63 \<and> - (2 ^ 63) \<le> offset \<and> offset < 2 ^ 63"
    then show "get_all_employees limit offset db =
              Inr (if limit < 0 then drop (nat offset) (ordered_employees db)
                   else take (nat limit) (drop (nat offset) (ordered_employees db)))"
      by (simp add: get_all_employees_def select_page_in_range ordered_employees_def
          take_map drop_map)
  }
  assume len: "length (employees db) = 4"
  then have l4: "length ?xs = 4" by simp
  let ?p1 = "map from_dict (take 2 ?xs)"
  let ?p2 = "map from_dict (take 2 (drop 2 ?xs))"
  have p1: "get_all_employees 2 0 db = Inr ?p1"
    by (simp add: get_all_employees_def select_page_def bind_int_def)
  have p2: "get_all_employees 2 2 db = Inr ?p2"
    by (simp add: get_all_employees_def select_page_def bind_int_def)
  have app: "take 2 ?xs @ take 2 (drop 2 ?xs) = ?xs"
    using l4 by (metis (no_types, lifting) add_2_eq_Suc' append_take_drop_id numeral_Bit0 order_refl take_add take_all_iff)
  have all: "?p1 @ ?p2 = map from_dict ?xs"
    unfolding map_append [symmetric] app ..
  have d: "distinct (map from_dict ?xs)"
  proof -
    have "distinct ?xs" using strict by (metis distinct_map strict_sorted_iff)
    then show ?thesis by (simp add: distinct_map from_dict_inj inj_on_def injD [OF from_dict_inj])
  qed
  have 1: "length ?p1 = 2" "length ?p2 = 2" using l4 by simp_all
  from d have 2: "set ?p1 \<inter> set ?p2 = {}"
    unfolding all [symmetric] by simp
  have "set (?p1 @ ?p2) = from_dict ` set (employees db)"
    unfolding all by simp
  then have 3: "set ?p1 \<union> set ?p2 = from_dict ` set (employees db)"
    by simp
  have 4: "ascending_ids (?p1 @ ?p2)"
    unfolding all using strict by (simp add: ascending_from_dict)
  show "\<exists>p1 p2.
               get_all_employees 2 0 db = Inr p1 \<and> get_all_employees 2 2 db = Inr p2 \<and>
               length p1 = 2 \<and> length p2 = 2 \<and>
               set p1 \<inter> set p2 = {} \<and>
               set p1 \<union> set p2 = from_dict ` set (employees db) \<and>
               ascending_ids (p1 @ p2)"
    using p1 p2 1 2 3 4 by blast
qed

text \<open>The theorem at the store of four employees.\<close>

theorem list_pages_witness:
  "distinct (map col_id (employees db_four)) \<and>
   length (employees db_four) = 4 \<and>
   get_all_employees 2 0 db_four = Inr [from_dict row_a, from_dict row_b] \<and>
   get_all_employees 2 2 db_four = Inr [from_dict row_c, from_dict row_d] \<and>
   ascending_ids ([from_dict row_a, from_dict row_b] @ [from_dict row_c, from_dict row_d]) \<and>
   set [from_dict row_a, from_dict row_b] \<inter> set [from_dict row_c, from_dict row_d] = {} \<and>
   set [from_dict row_a, from_dict row_b] \<union> set [from_dict row_c, from_dict row_d] =
     from_dict ` set (employees db_four)"
proof -
  have d: "distinct (map col_id (employees db_four))"
    by (simp add: db_four_def row_a_def row_b_def row_c_def row_d_def)
  have l: "length (employees db_four) = 4"
    by (simp add: db_four_def)
  have s: "sort_key col_id (employees db_four) = [row_a, row_b, row_c, row_d]"
    by (simp add: db_four_def row_a_def row_b_def row_c_def row_d_def)
  have p: "get_all_employees 2 0 db_four = Inr [from_dict row_a, from_dict row_b]"
    "get_all_employees 2 2 db_four = Inr [from_dict row_c, from_dict row_d]"
    by (simp_all add: get_all_employees_def select_page_def bind_int_def s)
  from list_pages [OF d, of 2 0, THEN conjunct2, THEN conjunct2, rule_format, OF l]
  obtain p1 p2 where
    "get_all_employees 2 0 db_four = Inr p1" "get_all_employees 2 2 db_four = Inr p2"
    and t: "set p1 \<inter> set p2 = {}" "set p1 \<union> set p2 = from_dict ` set (employees db_four)"
      "ascending_ids (p1 @ p2)"
    by blast
  with p have "p1 = [from_dict row_a, from_dict row_b]" "p2 = [from_dict row_c, from_dict row_d]"
    by simp_all
  with t have
    "ascending_ids ([from_dict row_a, from_dict row_b] @ [from_dict row_c, from_dict row_d])"
    "set [from_dict row_a, from_dict row_b] \<inter> set [from_dict row_c, from_dict row_d] = {}"
    "set [from_dict row_a, from_dict row_b] \<union> set [from_dict row_c, from_dict row_d] =
       from_dict ` set (employees db_four)"
    by blast+
  with d l p show ?thesis
    by (intro conjI)
qed



text \<open>
  Claim C6, as amended. Validation comes before the uniqueness check in
  \<^verbatim>\<open>update_employee\<close>. Let A and B be two persisted employees with different ids and,
  as the \<^verbatim>\<open>UNIQUE\<close> constraint has them, different emails. An update of A with a
  mapping whose email is the email of B, and whose candidate record passes
  validation, fails with \<^verbatim>\<open>UniqueConstraintError\<close> keyed \<^verbatim>\<open>email\<close>, and the store
  is as before. An update of A with a mapping whose email is the email of A never
  fails with \<^verbatim>\<open>UniqueConstraintError\<close>.
\<close>

theorem update_email_conflict:
  assumes "select_by_id db a = Inr (Some ra)"
    and "rb \<in> set (employees db)" and "col_id rb \<noteq> a" and "col_email rb \<noteq> col_email ra"
  shows "(\<forall>data errors.
            data ''email'' = Some (VStr (col_email rb)) \<and>
            validate_employee_data (update_data (from_dict ra) data) = Inr (True, errors) \<longrightarrow>
            update_employee a data db =
              (Inl (UniqueConstraintError
                      [(''email'', ''Email '' @ [CHR 0x27] @ col_email rb @ [CHR 0x27]
                                     @ '' already exists'')]), db)) \<and>
         (\<forall>data m.
            data ''email'' = Some (VStr (col_email ra)) \<longrightarrow>
            fst (update_employee a data db) \<noteq> Inl (UniqueConstraintError m))"
proof (intro conjI allI impI)
  have g: "get_employee_by_id a db = Inr (from_dict ra)"
    using assms(1) by (rule get_by_id)
  {
    fix data errors
    assume h: "data ''email'' = Some (VStr (col_email rb)) \<and>
            validate_employee_data (update_data (from_dict ra) data) = Inr (True, errors)"
    have "find (\<lambda>r. col_email r = col_email rb \<and> col_id r \<noteq> a) (employees db) \<noteq> None"
      using assms(2) by (rule find_member) (simp add: assms(3))
    moreover have "bind_int a = Inr a"
      using assms(1) by (simp add: select_by_id_Inr bind_int_def)
    ultimately have "duplicate_email a (from_dict ra) data db = Inr True"
      using h assms(4)
      by (auto simp: duplicate_email_def select_id_by_email_except_def and_then_def from_dict_def)
    with g h show "update_employee a data db =
              (Inl (UniqueConstraintError
                      [(''email'', ''Email '' @ [CHR 0x27] @ col_email rb @ [CHR 0x27]
                                     @ '' already exists'')]), db)"
      by (simp add: update_employee_def already_exists_def dict_get_def)
  }
  {
    fix data m
    assume h: "data ''email'' = Some (VStr (col_email ra))"
    then have d: "duplicate_email a (from_dict ra) data db = Inr False"
      by (simp add: duplicate_email_def from_dict_def)
    show "fst (update_employee a data db) \<noteq> Inl (UniqueConstraintError m)"
      using g d
      by (auto simp: update_employee_def split: sum.splits prod.splits if_splits
          dest: validate_raises update_values_errors execute_update_errors get_errors)
  }
qed

text \<open>The theorem at the store of two employees: the first takes the email of the
  second, and the first sends its own email again.\<close>

theorem update_email_conflict_witness:
  "select_by_id db_ab 1 = Inr (Some row_a) \<and>
   row_b \<in> set (employees db_ab) \<and>
   col_id row_b \<noteq> 1 \<and>
   col_email row_b \<noteq> col_email row_a \<and>
   [''email'' \<mapsto> VStr ''c@d.org''] ''email'' = Some (VStr (col_email row_b)) \<and>
   validate_employee_data (update_data (from_dict row_a) [''email'' \<mapsto> VStr ''c@d.org'']) =
     Inr (True, []) \<and>
   update_employee 1 [''email'' \<mapsto> VStr ''c@d.org''] db_ab =
     (Inl (UniqueConstraintError
             [(''email'', ''Email '' @ [CHR 0x27] @ ''c@d.org'' @ [CHR 0x27] @ '' already exists'')]),
      db_ab) \<and>
   [''email'' \<mapsto> VStr ''a@b.co''] ''email'' = Some (VStr (col_email row_a)) \<and>
   fst (update_employee 1 [''email'' \<mapsto> VStr ''a@b.co''] db_ab) \<noteq>
     Inl (UniqueConstraintError [])"
proof -
  have s: "select_by_id db_ab 1 = Inr (Some row_a)"
    by (simp add: select_by_id_def bind_int_def db_ab_def row_a_def)
  have b: "row_b \<in> set (employees db_ab)"
    by (simp add: db_ab_def)
  have i: "col_id row_b \<noteq> 1"
    by (simp add: row_b_def)
  have e: "col_email row_b \<noteq> col_email row_a"
    by (simp add: row_a_def row_b_def)
  have eb: "col_email row_b = ''c@d.org''" and ea: "col_email row_a = ''a@b.co''"
    by (simp_all add: row_a_def row_b_def)
  have m: "[''email'' \<mapsto> VStr ''c@d.org''] ''email'' = Some (VStr (col_email row_b))"
    by (simp add: eb)
  have m': "[''email'' \<mapsto> VStr ''a@b.co''] ''email'' = Some (VStr (col_email row_a))"
    by (simp add: ea)
  have v: "validate_employee_data (update_data (from_dict row_a) [''email'' \<mapsto> VStr ''c@d.org'']) =
     Inr (True, [])"
    by code_simp
  note t = update_email_conflict [OF s b i e]
  have 1: "update_employee 1 [''email'' \<mapsto> VStr ''c@d.org''] db_ab =
     (Inl (UniqueConstraintError
             [(''email'', ''Email '' @ [CHR 0x27] @ ''c@d.org'' @ [CHR 0x27] @ '' already exists'')]),
      db_ab)"
    using t [THEN conjunct1, rule_format, OF conjI, OF m v] unfolding eb .
  have 2: "fst (update_employee 1 [''email'' \<mapsto> VStr ''a@b.co''] db_ab) \<noteq>
     Inl (UniqueConstraintError [])"
    by (rule t [THEN conjunct2, rule_format]) (rule m')
  show ?thesis
    by (intro conjI s b i e m v 1 m' 2)
qed

text \<open>Claim C6 as it is written fails: a mapping with the email of the other employee
  and a salary that is not positive is rejected by validation, with
  \<^verbatim>\<open>ValidationError\<close>.\<close>

theorem update_email_conflict_counterexample:
  "select_by_id db_ab 1 = Inr (Some row_a) \<and>
   row_b \<in> set (employees db_ab) \<and>
   [''email'' \<mapsto> VStr ''c@d.org'', ''salary'' \<mapsto> VInt (- 1)] ''email'' =
     Some (VStr (col_email row_b)) \<and>
   update_employee 1 [''email'' \<mapsto> VStr ''c@d.org'', ''salary'' \<mapsto> VInt (- 1)] db_ab =
     (Inl (ValidationError [(''salary'', ''Salary must be greater than 0'')]), db_ab)"
  by code_simp

text \<open>
  Claim C4, as amended. Create trims the text fields and converts the salary with
  \<^verbatim>\<open>float\<close> before the insert. Whenever create returns an entity, its id and its
  \<^verbatim>\<open>created_at\<close> are set, a get of that id on the new store returns the same
  entity, its four text fields are the fields of the input with the whitespace at
  both ends removed, and its salary is the \<^verbatim>\<open>float\<close> of the salary of the input.
\<close>

theorem create_then_get:
  assumes "create_employee now data db = (Inr e, db')"
  shows "(\<exists>i. id' e = Some i \<and> get_employee_by_id i db' = Inr e) \<and>
         created_at e = Some now \<and>
         and_then (dict_index data ''first_name'') py_strip = Inr (first_name e) \<and>
         and_then (dict_index data ''last_name'') py_strip = Inr (last_name e) \<and>
         and_then (dict_index data ''email'') py_strip = Inr (email e) \<and>
         and_then (dict_index data ''position'') py_strip = Inr (position e) \<and>
         and_then (dict_index data ''salary'') py_float = Inr (salary e)"
proof -
  from assms obtain params i where p: "insert_params data = Inr params"
    and x: "execute_insert now params db = (Inr i, db')"
    and g: "get_employee_by_id i db' = Inr e"
    by (auto simp: create_employee_def split: sum.splits prod.splits if_splits option.splits)
  obtain fname lname em pos sal where params: "params = (fname, lname, em, pos, sal)"
    by (cases params) auto
  let ?row = "\<lparr>col_id = i, col_first_name = fname, col_last_name = lname, col_email = em,
                 col_position = pos, col_salary = sal, col_created_at = Some now\<rparr>"
  have "find (\<lambda>r. col_id r = i) (employees db') = Some ?row"
    using x unfolding params by (rule execute_insert_Inr)
  with g have e: "e = from_dict ?row"
    by (auto simp: get_employee_by_id_def select_by_id_def bind_int_def
        split: sum.splits option.splits if_splits)
  from p have f: "and_then (dict_index data ''first_name'') py_strip = Inr fname \<and>
     and_then (dict_index data ''last_name'') py_strip = Inr lname \<and>
     and_then (dict_index data ''email'') py_strip = Inr em \<and>
     and_then (dict_index data ''position'') py_strip = Inr pos \<and>
     and_then (dict_index data ''salary'') py_float = Inr sal"
    unfolding params by (rule insert_params_Inr)
  have "id' e = Some i" "created_at e = Some now" "first_name e = fname" "last_name e = lname"
    "email e = em" "position e = pos" "salary e = sal"
    by (simp_all add: e from_dict_def)
  with f g show ?thesis by simp
qed

text \<open>The theorem at the store of two employees and a record with a padded first name
  and the salary as a string.\<close>

theorem create_then_get_witness:
  "create_employee ''2026-01-05 09:00:00''
     (valid_fields(''first_name'' \<mapsto> VStr '' Ann '', ''email'' \<mapsto> VStr ''ann@x.org'',
                   ''salary'' \<mapsto> VStr ''50000'')) db_ab =
     (Inr \<lparr>first_name = ''Ann'', last_name = ''B'', email = ''ann@x.org'', position = ''Eng'',
            salary = Fin 50000, id' = Some 3, created_at = Some ''2026-01-05 09:00:00''\<rparr>,
      \<lparr>employees =
         [row_a, row_b,
          \<lparr>col_id = 3, col_first_name = ''Ann'', col_last_name = ''B'',
             col_email = ''ann@x.org'', col_position = ''Eng'', col_salary = Fin 50000,
             col_created_at = Some ''2026-01-05 09:00:00''\<rparr>],
       sqlite_sequence = 3\<rparr>) \<and>
   get_employee_by_id 3
     \<lparr>employees =
         [row_a, row_b,
          \<lparr>col_id = 3, col_first_name = ''Ann'', col_last_name = ''B'',
             col_email = ''ann@x.org'', col_position = ''Eng'', col_salary = Fin 50000,
             col_created_at = Some ''2026-01-05 09:00:00''\<rparr>],
       sqlite_sequence = 3\<rparr> =
     Inr \<lparr>first_name = ''Ann'', last_name = ''B'', email = ''ann@x.org'', position = ''Eng'',
            salary = Fin 50000, id' = Some 3, created_at = Some ''2026-01-05 09:00:00''\<rparr>"
proof -
  let ?data = "valid_fields(''first_name'' \<mapsto> VStr '' Ann '', ''email'' \<mapsto> VStr ''ann@x.org'',
                   ''salary'' \<mapsto> VStr ''50000'')"
  let ?e = "\<lparr>first_name = ''Ann'', last_name = ''B'', email = ''ann@x.org'', position = ''Eng'',
            salary = Fin 50000, id' = Some 3, created_at = Some ''2026-01-05 09:00:00''\<rparr>"
  let ?db = "\<lparr>employees =
         [row_a, row_b,
          \<lparr>col_id = 3, col_first_name = ''Ann'', col_last_name = ''B'',
             col_email = ''ann@x.org'', col_position = ''Eng'', col_salary = Fin 50000,
             col_created_at = Some ''2026-01-05 09:00:00''\<rparr>],
       sqlite_sequence = 3\<rparr>"
  have c: "create_employee ''2026-01-05 09:00:00'' ?data db_ab = (Inr ?e, ?db)"
    by code_simp
  from create_then_get [OF c] have "get_employee_by_id 3 ?db = Inr ?e"
    by simp
  with c show ?thesis
    by (intro conjI)
qed

text \<open>Claim C4 as it is written fails: the first name of the input has a space at each
  end, the record is valid, and the entity that create returns, which is the one a
  get returns, has the trimmed name, which is not the name of the input.\<close>

theorem create_then_get_counterexample:
  "validate_employee_data (valid_fields(''first_name'' \<mapsto> VStr '' Ann '')) = Inr (True, []) \<and>
   fst (create_employee ''2026-01-05 09:00:00'' (valid_fields(''first_name'' \<mapsto> VStr '' Ann ''))
          empty_db) =
     Inr \<lparr>first_name = ''Ann'', last_name = ''B'', email = ''a@b.co'', position = ''Eng'',
            salary = Fin 50000, id' = Some 1, created_at = Some ''2026-01-05 09:00:00''\<rparr> \<and>
   ''Ann'' \<noteq> '' Ann ''"
  by code_simp

end
